theory Spec2Isabelle
  imports Main
begin

section \<open>Windows EventLog resources database reader (plaso/output/winevt\_rc.py)\<close>

text \<open>
  The module has three classes: \<open>Sqlite3DatabaseFile\<close> (a thin accessor over one sqlite3
  connection and one cursor), \<open>WinevtResourcesSqlite3DatabaseReader\<close> (the lookups and the
  message string reformatting) and \<open>WinevtResourcesHelper\<close> (lazy acquisition of the reader
  and the language fallback). Each method is a function that takes the object's state and
  returns the outcome together with the state the object is left in, also when the method
  raises: an exception does not undo the assignments made before it.

  Naming: a Python name with a leading underscore is written with the prefix \<open>u_\<close>
  (\<open>_GetMessage\<close> is \<open>u_GetMessage\<close>); \<open>Open\<close> and \<open>Close\<close>, which two classes define,
  carry the class name.
\<close>

subsection \<open>Python values and exceptions\<close>

text \<open>
  The values that travel through the module: \<open>None\<close>, integers and strings. A string is a
  list of characters; the regular expressions of the module only ever match ASCII
  characters, so the encoding of other characters does not matter to them.
\<close>

datatype py_value = PyNone | PyInt int | PyStr string

text \<open>Truth value testing (\<open>if x\<close>, \<open>not x\<close>): \<open>None\<close>, \<open>0\<close> and \<open>''\<close> are false.\<close>

fun truthy :: "py_value \<Rightarrow> bool" where
  "truthy PyNone = False"
| "truthy (PyInt n) = (n \<noteq> 0)"
| "truthy (PyStr s) = (s \<noteq> [])"

text \<open>
  The exceptions that can leave a method. \<open>RuntimeError\<close> carries its message, since the
  module tells its failures apart by the message only.
\<close>

datatype error =
    RuntimeError string
  | TypeError
  | ValueError
  | KeyError
  | AttributeError
  | OperationalError

subsection \<open>Number formatting (\<open>str.format\<close> with \<open>d\<close> and \<open>08x\<close>)\<close>

definition digit_char :: "nat \<Rightarrow> char" where
  "digit_char n = ''0123456789abcdef'' ! n"

fun digits_of_nat :: "nat \<Rightarrow> nat \<Rightarrow> string" where
  "digits_of_nat base n =
     (if base < 2 \<or> n < base then [digit_char n]
      else digits_of_nat base (n div base) @ [digit_char (n mod base)])"

text \<open>\<open>'{0:d}'.format(n)\<close>: decimal digits, a minus sign for a negative number.\<close>

definition format_d :: "int \<Rightarrow> string" where
  "format_d n = (if n < 0 then CHR ''-'' # digits_of_nat 10 (nat (- n)) else digits_of_nat 10 (nat n))"

text \<open>
  \<open>'{0:08x}'.format(n)\<close>: lower-case hexadecimal digits, padded with zeros to a width of
  eight that includes the sign; a longer number is not truncated.
\<close>

definition format_08x :: "int \<Rightarrow> string" where
  "format_08x n =
     (if n < 0
      then (let ds = digits_of_nat 16 (nat (- n)) in CHR ''-'' # replicate (7 - length ds) CHR ''0'' @ ds)
      else (let ds = digits_of_nat 16 (nat n) in replicate (8 - length ds) CHR ''0'' @ ds))"

text \<open>
  \<open>int(group, 10)\<close> on a string of decimal digits; \<open>None\<close> stands for the \<open>ValueError\<close>
  raised on the empty string or on another character. (Python also accepts surrounding
  white space, a sign and underscores; no such string is ever a group of the place holder
  pattern.)
\<close>

definition digit_value :: "char \<Rightarrow> nat option" where
  "digit_value c =
     (if c \<in> set ''0123456789'' then Some (of_char c - 48) else None)"

fun int_of_digits :: "nat \<Rightarrow> string \<Rightarrow> nat option" where
  "int_of_digits acc [] = Some acc"
| "int_of_digits acc (c # cs) =
     (case digit_value c of None \<Rightarrow> None | Some d \<Rightarrow> int_of_digits (10 * acc + d) cs)"

definition py_int_base10 :: "string \<Rightarrow> int option" where
  "py_int_base10 s = (if s = [] then None else map_option int (int_of_digits 0 s))"

subsection \<open>Regular expression substitution\<close>

text \<open>
  \<open>pattern.sub(repl, string)\<close> replaces the leftmost non-overlapping matches, scanning from
  the left: where the pattern matches, the replacement is written and the scan goes on
  behind the match; elsewhere the character is copied. A pattern is given by what it does
  at the start of a text: the length of its match there and the text of its group 1 (each
  of the four patterns of the module has exactly one group, and none of them matches the
  empty string). For an empty match Python writes the replacement and copies the
  character.
\<close>

type_synonym pattern = "string \<Rightarrow> (nat \<times> string) option"

fun re_sub :: "pattern \<Rightarrow> (string \<Rightarrow> string) \<Rightarrow> string \<Rightarrow> string" where
  "re_sub p repl [] = (case p [] of None \<Rightarrow> [] | Some (n, g) \<Rightarrow> repl g)"
| "re_sub p repl (c # cs) =
     (case p (c # cs) of
        None \<Rightarrow> c # re_sub p repl cs
      | Some (n, g) \<Rightarrow>
          (if n = 0 then repl g @ c # re_sub p repl cs
           else repl g @ re_sub p repl (drop (n - 1) cs)))"

text \<open>\<open>_WHITE_SPACE_SPECIFIER_RE = re.compile(r'(%[0b]|[\r\n])')\<close>\<close>

definition WHITE_SPACE_SPECIFIER_RE :: pattern where
  "WHITE_SPACE_SPECIFIER_RE s =
     (case s of
        [] \<Rightarrow> None
      | c # cs \<Rightarrow>
          (if c = CHR ''%'' then
             (case cs of
                [] \<Rightarrow> None
              | d # _ \<Rightarrow> if d = CHR ''0'' \<or> d = CHR ''b'' then Some (2, [c, d]) else None)
           else if c = CHR 0x0D \<or> c = CHR 0x0A then Some (1, [c])
           else None))"

text \<open>A character class \<open>[...]\<close>, given by the characters it lists.\<close>

definition char_in :: "string \<Rightarrow> char \<Rightarrow> bool" where
  "char_in cls c = (c \<in> set cls)"

text \<open>\<open>_TEXT_SPECIFIER_RE = re.compile(r'%([ .!%nrt])')\<close>\<close>

definition TEXT_SPECIFIER_RE :: pattern where
  "TEXT_SPECIFIER_RE s =
     (case s of
        c # d # _ \<Rightarrow> if c = CHR ''%'' \<and> char_in '' .!%nrt'' d then Some (2, [d]) else None
      | _ \<Rightarrow> None)"

text \<open>\<open>_CURLY_BRACKETS = re.compile(r'([\{\}])')\<close>\<close>

definition CURLY_BRACKETS :: pattern where
  "CURLY_BRACKETS s =
     (case s of
        [] \<Rightarrow> None
      | c # _ \<Rightarrow> if c = CHR ''{'' \<or> c = CHR ''}'' then Some (1, [c]) else None)"

text \<open>
  \<open>_PLACE_HOLDER_SPECIFIER_RE = re.compile(r'%([1-9][0-9]?)[!]?[s]?[!]?')\<close>. Every
  optional item \<open>[...]?\<close> is greedy and nothing that must match follows it, so each one
  takes the next character whenever that character is in its class; \<open>optional\<close> is what
  such an item takes from the start of a text.
\<close>

definition optional :: "string \<Rightarrow> string \<Rightarrow> string" where
  "optional cls s = (case s of [] \<Rightarrow> [] | d # _ \<Rightarrow> if char_in cls d then [d] else [])"

definition PLACE_HOLDER_SPECIFIER_RE :: pattern where
  "PLACE_HOLDER_SPECIFIER_RE s =
     (case s of
        c # d1 # r0 \<Rightarrow>
          (if c = CHR ''%'' \<and> char_in ''123456789'' d1 then
             (let m0 = optional ''0123456789'' r0;
                  r1 = drop (length m0) r0;
                  m1 = optional ''!'' r1;
                  r2 = drop (length m1) r1;
                  m2 = optional ''s'' r2;
                  r3 = drop (length m2) r2;
                  m3 = optional ''!'' r3
              in Some (2 + length m0 + length m1 + length m2 + length m3, d1 # m0))
           else None)
      | _ \<Rightarrow> None)"

subsection \<open>Reformatting a message string\<close>

text \<open>
  The inner function \<open>_PlaceHolderSpecifierReplacer\<close> loops over \<open>match_object.groups()\<close>,
  which for this pattern is the one group: the number, less one, becomes the slot
  \<open>{n:s}\<close>; a group that is not a number would be copied.
\<close>

definition u_PlaceHolderSpecifierReplacer :: "string \<Rightarrow> string" where
  "u_PlaceHolderSpecifierReplacer group1 =
     (case py_int_base10 group1 of
        Some n \<Rightarrow> ''{'' @ format_d (n - 1) @ '':s}''
      | None \<Rightarrow> group1)"

text \<open>
  \<open>_ReformatMessageString\<close>: four substitutions, one per line of the source, each on
  the result of the one before. The templates are \<open>r''\<close> (nothing), \<open>r'\\\1'\<close> (a
  backslash and group 1) and \<open>r'\1\1'\<close> (group 1 twice); the last replacement is the
  function above. A value that is not a string (and is not false) makes \<open>sub\<close> raise
  \<open>TypeError\<close>.
\<close>

definition remove_white_space_specifiers :: "string \<Rightarrow> string" where
  "remove_white_space_specifiers s = re_sub WHITE_SPACE_SPECIFIER_RE (\<lambda>g. []) s"

definition expand_text_specifiers :: "string \<Rightarrow> string" where
  "expand_text_specifiers s = re_sub TEXT_SPECIFIER_RE (\<lambda>g. CHR 0x5C # g) s"

definition double_curly_brackets :: "string \<Rightarrow> string" where
  "double_curly_brackets s = re_sub CURLY_BRACKETS (\<lambda>g. g @ g) s"

definition replace_place_holders :: "string \<Rightarrow> string" where
  "replace_place_holders s = re_sub PLACE_HOLDER_SPECIFIER_RE u_PlaceHolderSpecifierReplacer s"

definition reformat :: "string \<Rightarrow> string" where
  "reformat message_string =
     (let s1 = remove_white_space_specifiers message_string;
          s2 = expand_text_specifiers s1;
          s3 = double_curly_brackets s2
      in replace_place_holders s3)"

fun u_ReformatMessageString :: "py_value \<Rightarrow> error + py_value" where
  "u_ReformatMessageString PyNone = Inr PyNone"
| "u_ReformatMessageString (PyInt n) = (if n = 0 then Inr PyNone else Inl TypeError)"
| "u_ReformatMessageString (PyStr s) = (if s = [] then Inr PyNone else Inr (PyStr (reformat s)))"

subsection \<open>The resource store and the sqlite3 module\<close>

text \<open>
  The store is an SQLite file with the layout the reader queries: an optional table
  \<open>metadata(name, value)\<close>, the tables \<open>event_log_providers(event_log_provider_key,
  log_source)\<close> and \<open>message_file_per_event_log_provider(message_file_key,
  event_log_provider_key)\<close>, and any number of tables \<open>message_table_<key>_0x<lcid>
  (message_identifier, message_string)\<close>, found by name. Keys are integers, the other
  columns text, as the docstrings of the reader have them. Rows are kept in the order in
  which a query returns them.
\<close>

record winevt_rc_db =
  metadata :: "(string \<times> string) list option"
  event_log_providers :: "(int \<times> string) list"
  message_file_per_event_log_provider :: "(int \<times> int) list"
  message_tables :: "string \<rightharpoonup> (string \<times> string) list"

text \<open>A table as the engine sees it: its column names and its rows.\<close>

type_synonym sql_row = "py_value list"

definition db_table :: "winevt_rc_db \<Rightarrow> string \<Rightarrow> (string list \<times> sql_row list) option" where
  "db_table db table_name =
     (if table_name = ''metadata'' then
        map_option (\<lambda>rows. ([''name'', ''value''], map (\<lambda>(n, v). [PyStr n, PyStr v]) rows))
          (metadata db)
      else if table_name = ''event_log_providers'' then
        Some ([''event_log_provider_key'', ''log_source''],
              map (\<lambda>(k, s). [PyInt k, PyStr s]) (event_log_providers db))
      else if table_name = ''message_file_per_event_log_provider'' then
        Some ([''message_file_key'', ''event_log_provider_key''],
              map (\<lambda>(f, k). [PyInt f, PyInt k]) (message_file_per_event_log_provider db))
      else
        map_option
          (\<lambda>rows. ([''message_identifier'', ''message_string''],
                    map (\<lambda>(i, m). [PyStr i, PyStr m]) rows))
          (message_tables db table_name))"

text \<open>
  The module writes its queries as SQL text: \<open>SELECT <columns> FROM <table> WHERE <column>
  == <literal>\<close>, the literal being the interpolated argument. The model keeps the parts
  of that text. A condition compares one column with one literal; \<open>None\<close> is the empty
  condition, for which \<open>GetValues\<close> writes no \<open>WHERE\<close>. (A log source that contains a
  double quote, or that is itself the name of a column, would change what the SQL text
  means; the model reads every argument as the literal the source means it to be.)
\<close>

type_synonym sql_condition = "(string \<times> py_value) option"

fun index_of :: "'a \<Rightarrow> 'a list \<Rightarrow> nat option" where
  "index_of x [] = None"
| "index_of x (y # ys) = (if x = y then Some 0 else map_option Suc (index_of x ys))"

fun column_indices :: "string list \<Rightarrow> string list \<Rightarrow> nat list option" where
  "column_indices columns [] = Some []"
| "column_indices columns (c # cs) =
     (case index_of c columns of
        None \<Rightarrow> None
      | Some i \<Rightarrow> map_option ((#) i) (column_indices columns cs))"

text \<open>
  What \<open>cursor.execute\<close> finds for a \<open>SELECT\<close> over one table: the rows that meet the
  condition, in table order, cut to the asked columns; \<open>OperationalError\<close> for a table or
  column that does not exist. The module never names more than one table.
\<close>

definition sqlite3_select ::
  "winevt_rc_db \<Rightarrow> string list \<Rightarrow> string list \<Rightarrow> sql_condition \<Rightarrow> error + sql_row list" where
  "sqlite3_select db table_names column_names condition =
     (case table_names of
        [table_name] \<Rightarrow>
          (case db_table db table_name of
             None \<Rightarrow> Inl OperationalError
           | Some (columns, rows) \<Rightarrow>
               (case column_indices columns column_names of
                  None \<Rightarrow> Inl OperationalError
                | Some idx \<Rightarrow>
                    (case condition of
                       None \<Rightarrow> Inr (map (\<lambda>row. map ((!) row) idx) rows)
                     | Some (column, literal) \<Rightarrow>
                         (case index_of column columns of
                            None \<Rightarrow> Inl OperationalError
                          | Some i \<Rightarrow>
                              Inr (map (\<lambda>row. map ((!) row) idx)
                                     (filter (\<lambda>row. row ! i = literal) rows))))))
      | _ \<Rightarrow> Inl OperationalError)"

text \<open>
  \<open>_HAS_TABLE_QUERY\<close>, \<open>SELECT name FROM sqlite_master WHERE type = "table" AND name =
  "<table_name>"\<close>: one row when the table exists, none otherwise.
\<close>

definition sqlite3_has_table_query :: "winevt_rc_db \<Rightarrow> string \<Rightarrow> sql_row list" where
  "sqlite3_has_table_query db table_name =
     (case db_table db table_name of None \<Rightarrow> [] | Some _ \<Rightarrow> [[PyStr table_name]])"

text \<open>
  A cursor of the sqlite3 module belongs to one connection and holds one result set, that
  of the statement it executed last: \<open>execute\<close> discards the rows of the earlier statement
  that were not fetched yet, and \<open>fetchone\<close> and iteration both take the next row of the
  current result set. The cursor is therefore the store it reads from and the rows still
  to be fetched.
\<close>

record sqlite3_cursor =
  cursor_db :: winevt_rc_db
  cursor_rows :: "sql_row list"

text \<open>
  What lies outside the program: which paths are files (\<open>os.path.isfile\<close>) and what
  \<open>sqlite3.connect\<close> does with a path, \<open>None\<close> being \<open>sqlite3.OperationalError\<close>.
\<close>

record environment =
  isfile :: "string \<Rightarrow> bool"
  sqlite3_connect :: "string \<Rightarrow> winevt_rc_db option"

subsection \<open>Class \<open>Sqlite3DatabaseFile\<close>\<close>

record Sqlite3DatabaseFile =
  u_connection :: "winevt_rc_db option"
  u_cursor :: "sqlite3_cursor option"
  filename :: "string option"
  read_only :: "bool option"

definition Sqlite3DatabaseFile_init :: Sqlite3DatabaseFile where
  "Sqlite3DatabaseFile_init =
     \<lparr>u_connection = None, u_cursor = None, filename = None, read_only = None\<rparr>"

text \<open>
  \<open>Close\<close>. Commit and close change nothing in a store that is only read. The result
  \<open>Inr ()\<close> is the plain return.
\<close>

definition Sqlite3DatabaseFile_Close ::
  "Sqlite3DatabaseFile \<Rightarrow> (error + unit) \<times> Sqlite3DatabaseFile" where
  "Sqlite3DatabaseFile_Close f =
     (case u_connection f of
        None \<Rightarrow> (Inl (RuntimeError ''Cannot close database not opened.''), f)
      | Some _ \<Rightarrow>
          (Inr (), f\<lparr>u_connection := None, u_cursor := None, filename := None,
                     read_only := None\<rparr>))"

text \<open>
  \<open>HasTable\<close>: executes the query on the shared cursor and fetches one row. With no
  cursor object \<open>self._cursor.execute\<close> would be an \<open>AttributeError\<close>.
\<close>

definition HasTable :: "Sqlite3DatabaseFile \<Rightarrow> string \<Rightarrow> (error + bool) \<times> Sqlite3DatabaseFile" where
  "HasTable f table_name =
     (case u_connection f of
        None \<Rightarrow>
          (Inl (RuntimeError ''Cannot determine if table exists database not opened.''), f)
      | Some _ \<Rightarrow>
          (case u_cursor f of
             None \<Rightarrow> (Inl AttributeError, f)
           | Some c \<Rightarrow>
               (case sqlite3_has_table_query (cursor_db c) table_name of
                  [] \<Rightarrow> (Inr False, f\<lparr>u_cursor := Some (c\<lparr>cursor_rows := []\<rparr>)\<rparr>)
                | row # rows \<Rightarrow> (Inr True, f\<lparr>u_cursor := Some (c\<lparr>cursor_rows := rows\<rparr>)\<rparr>))))"

text \<open>
  \<open>GetValues\<close> is a generator function: calling it runs nothing. The first item asked of
  the generator runs the body up to the loop (the check of the connection and
  \<open>execute\<close>, here \<open>GetValues_start\<close>); every item, the first included, is then one turn of
  \<open>for row in self._cursor\<close> (\<open>GetValues_next\<close>, \<open>None\<close> when the cursor has no row left and
  the generator ends). The rows are read from the cursor of the object at the time the
  item is asked for, not from a copy made at \<open>execute\<close>.
\<close>

definition GetValues_start ::
  "Sqlite3DatabaseFile \<Rightarrow> string list \<Rightarrow> string list \<Rightarrow> sql_condition \<Rightarrow>
     (error + unit) \<times> Sqlite3DatabaseFile" where
  "GetValues_start f table_names column_names condition =
     (case u_connection f of
        None \<Rightarrow> (Inl (RuntimeError ''Cannot retrieve values database not opened.''), f)
      | Some _ \<Rightarrow>
          (case u_cursor f of
             None \<Rightarrow> (Inl AttributeError, f)
           | Some c \<Rightarrow>
               (case sqlite3_select (cursor_db c) table_names column_names condition of
                  Inl e \<Rightarrow> (Inl e, f\<lparr>u_cursor := Some (c\<lparr>cursor_rows := []\<rparr>)\<rparr>)
                | Inr rows \<Rightarrow> (Inr (), f\<lparr>u_cursor := Some (c\<lparr>cursor_rows := rows\<rparr>)\<rparr>))))"

text \<open>The dictionary \<open>{column_name: row[column_index] ...}\<close> as an association list.\<close>

type_synonym py_dict = "(string \<times> py_value) list"

definition GetValues_next ::
  "Sqlite3DatabaseFile \<Rightarrow> string list \<Rightarrow> (error + py_dict option) \<times> Sqlite3DatabaseFile" where
  "GetValues_next f column_names =
     (case u_cursor f of
        None \<Rightarrow> (Inl AttributeError, f)
      | Some c \<Rightarrow>
          (case cursor_rows c of
             [] \<Rightarrow> (Inr None, f)
           | row # rows \<Rightarrow>
               (Inr (Some (zip column_names row)), f\<lparr>u_cursor := Some (c\<lparr>cursor_rows := rows\<rparr>)\<rparr>)))"

text \<open>
  \<open>list(self._database_file.GetValues(...))\<close>: the generator is started and run to its end
  with nothing in between, so it yields every row of its own query and leaves the cursor
  empty.
\<close>

definition GetValues_list ::
  "Sqlite3DatabaseFile \<Rightarrow> string list \<Rightarrow> string list \<Rightarrow> sql_condition \<Rightarrow>
     (error + py_dict list) \<times> Sqlite3DatabaseFile" where
  "GetValues_list f table_names column_names condition =
     (case GetValues_start f table_names column_names condition of
        (Inl e, f1) \<Rightarrow> (Inl e, f1)
      | (Inr _, f1) \<Rightarrow>
          (case u_cursor f1 of
             None \<Rightarrow> (Inl AttributeError, f1)
           | Some c \<Rightarrow>
               (Inr (map (zip column_names) (cursor_rows c)),
                f1\<lparr>u_cursor := Some (c\<lparr>cursor_rows := []\<rparr>)\<rparr>)))"

text \<open>
  \<open>Open\<close>. The attributes \<open>filename\<close> and \<open>read_only\<close> are assigned before
  \<open>sqlite3.connect\<close> is tried. A connection and a cursor object are never false, so the
  two \<open>if not ...: return False\<close> that follow cannot be taken.
\<close>

definition Sqlite3DatabaseFile_Open ::
  "environment \<Rightarrow> Sqlite3DatabaseFile \<Rightarrow> string \<Rightarrow> bool \<Rightarrow>
     (error + bool) \<times> Sqlite3DatabaseFile" where
  "Sqlite3DatabaseFile_Open env f file_name ro =
     (case u_connection f of
        Some _ \<Rightarrow> (Inl (RuntimeError ''Cannot open database already opened.''), f)
      | None \<Rightarrow>
          (let f1 = f\<lparr>filename := Some file_name, read_only := Some ro\<rparr> in
             (case sqlite3_connect env file_name of
                None \<Rightarrow> (Inr False, f1)
              | Some db \<Rightarrow>
                  (Inr True,
                   f1\<lparr>u_connection := Some db,
                      u_cursor := Some \<lparr>cursor_db = db, cursor_rows = []\<rparr>\<rparr>))))"

subsection \<open>Class \<open>WinevtResourcesSqlite3DatabaseReader\<close>\<close>

record WinevtResourcesSqlite3DatabaseReader =
  u_database_file :: Sqlite3DatabaseFile
  u_string_format :: string

definition WinevtResourcesSqlite3DatabaseReader_init :: WinevtResourcesSqlite3DatabaseReader where
  "WinevtResourcesSqlite3DatabaseReader_init =
     \<lparr>u_database_file = Sqlite3DatabaseFile_init, u_string_format = ''wrc''\<rparr>"

text \<open>\<open>values[key]\<close> on a dictionary built from pairs, a later pair replacing an earlier.\<close>

definition dict_get :: "py_dict \<Rightarrow> string \<Rightarrow> error + py_value" where
  "dict_get values k = (case map_of (rev values) k of None \<Rightarrow> Inl KeyError | Some v \<Rightarrow> Inr v)"

text \<open>
  \<open>'{0:d}'.format(v)\<close> and \<open>'{0:s}'.format(v)\<close> on a value: a format code that does not
  fit the type is a \<open>ValueError\<close>, and \<open>None\<close> takes no format code at all.
\<close>

fun py_format_d :: "py_value \<Rightarrow> error + string" where
  "py_format_d (PyInt n) = Inr (format_d n)"
| "py_format_d (PyStr s) = Inl ValueError"
| "py_format_d PyNone = Inl TypeError"

fun py_format_s :: "py_value \<Rightarrow> error + string" where
  "py_format_s (PyStr s) = Inr s"
| "py_format_s (PyInt n) = Inl ValueError"
| "py_format_s PyNone = Inl TypeError"

definition More_than_one_value :: error where
  "More_than_one_value = RuntimeError ''More than one value found in database.''"

definition u_GetEventLogProviderKey ::
  "WinevtResourcesSqlite3DatabaseReader \<Rightarrow> string \<Rightarrow>
     (error + py_value) \<times> WinevtResourcesSqlite3DatabaseReader" where
  "u_GetEventLogProviderKey r log_source =
     (case GetValues_list (u_database_file r) [''event_log_providers'']
             [''event_log_provider_key''] (Some (''log_source'', PyStr log_source)) of
        (Inl e, f1) \<Rightarrow> (Inl e, r\<lparr>u_database_file := f1\<rparr>)
      | (Inr values_list, f1) \<Rightarrow>
          (case values_list of
             [] \<Rightarrow> Inr PyNone
           | [values] \<Rightarrow> dict_get values ''event_log_provider_key''
           | _ \<Rightarrow> Inl More_than_one_value,
           r\<lparr>u_database_file := f1\<rparr>))"

definition u_GetMessage ::
  "WinevtResourcesSqlite3DatabaseReader \<Rightarrow> py_value \<Rightarrow> int \<Rightarrow> int \<Rightarrow>
     (error + py_value) \<times> WinevtResourcesSqlite3DatabaseReader" where
  "u_GetMessage r message_file_key lcid message_identifier =
     (case py_format_d message_file_key of
        Inl e \<Rightarrow> (Inl e, r)
      | Inr key_text \<Rightarrow>
          (let table_name = ''message_table_'' @ key_text @ ''_0x'' @ format_08x lcid in
             (case HasTable (u_database_file r) table_name of
                (Inl e, f1) \<Rightarrow> (Inl e, r\<lparr>u_database_file := f1\<rparr>)
              | (Inr has_table, f1) \<Rightarrow>
                  (if \<not> has_table then (Inr PyNone, r\<lparr>u_database_file := f1\<rparr>)
                   else
                     (case GetValues_list f1 [table_name] [''message_string'']
                             (Some (''message_identifier'',
                                    PyStr (''0x'' @ format_08x message_identifier))) of
                        (Inl e, f2) \<Rightarrow> (Inl e, r\<lparr>u_database_file := f2\<rparr>)
                      | (Inr values, f2) \<Rightarrow>
                          (case values of
                             [] \<Rightarrow> Inr PyNone
                           | [v] \<Rightarrow> dict_get v ''message_string''
                           | _ \<Rightarrow> Inl More_than_one_value,
                           r\<lparr>u_database_file := f2\<rparr>))))))"

text \<open>
  \<open>_GetMessageFileKeys\<close> is a generator over the generator \<open>GetValues\<close>. Its first item
  runs the body up to the loop (\<open>u_GetMessageFileKeys_start\<close>: the condition is formatted,
  the inner generator started); every item is one turn of the inner loop
  (\<open>u_GetMessageFileKeys_next\<close>).
\<close>

definition u_GetMessageFileKeys_start ::
  "WinevtResourcesSqlite3DatabaseReader \<Rightarrow> py_value \<Rightarrow>
     (error + unit) \<times> WinevtResourcesSqlite3DatabaseReader" where
  "u_GetMessageFileKeys_start r event_log_provider_key =
     (case py_format_d event_log_provider_key of
        Inl e \<Rightarrow> (Inl e, r)
      | Inr _ \<Rightarrow>
          (case GetValues_start (u_database_file r) [''message_file_per_event_log_provider'']
                  [''message_file_key'']
                  (Some (''event_log_provider_key'', event_log_provider_key)) of
             (res, f1) \<Rightarrow> (res, r\<lparr>u_database_file := f1\<rparr>)))"

definition u_GetMessageFileKeys_next ::
  "WinevtResourcesSqlite3DatabaseReader \<Rightarrow>
     (error + py_value option) \<times> WinevtResourcesSqlite3DatabaseReader" where
  "u_GetMessageFileKeys_next r =
     (case GetValues_next (u_database_file r) [''message_file_key''] of
        (Inl e, f1) \<Rightarrow> (Inl e, r\<lparr>u_database_file := f1\<rparr>)
      | (Inr None, f1) \<Rightarrow> (Inr None, r\<lparr>u_database_file := f1\<rparr>)
      | (Inr (Some values), f1) \<Rightarrow>
          (case dict_get values ''message_file_key'' of
             Inl e \<Rightarrow> (Inl e, r\<lparr>u_database_file := f1\<rparr>)
           | Inr k \<Rightarrow> (Inr (Some k), r\<lparr>u_database_file := f1\<rparr>)))"

definition WinevtResourcesSqlite3DatabaseReader_Close ::
  "WinevtResourcesSqlite3DatabaseReader \<Rightarrow>
     (error + unit) \<times> WinevtResourcesSqlite3DatabaseReader" where
  "WinevtResourcesSqlite3DatabaseReader_Close r =
     (case Sqlite3DatabaseFile_Close (u_database_file r) of
        (res, f1) \<Rightarrow> (res, r\<lparr>u_database_file := f1\<rparr>))"

text \<open>The rows the cursor of the reader still holds; the loop below ends on them.\<close>

definition rows_left :: "WinevtResourcesSqlite3DatabaseReader \<Rightarrow> nat" where
  "rows_left r =
     (case u_cursor (u_database_file r) of None \<Rightarrow> 0 | Some c \<Rightarrow> length (cursor_rows c))"

lemma u_GetMessage_rows_left:
  "u_GetMessage r k lcid mid = (Inr v, r') \<Longrightarrow> rows_left r' = 0"
  by (auto simp: u_GetMessage_def rows_left_def HasTable_def GetValues_list_def
        GetValues_start_def Let_def
      split: sum.splits option.splits list.splits if_splits prod.splits)

lemma u_GetMessageFileKeys_next_rows_left:
  "u_GetMessageFileKeys_next r = (Inr (Some k), r') \<Longrightarrow> 0 < rows_left r"
  by (auto simp: u_GetMessageFileKeys_next_def GetValues_next_def rows_left_def
      split: sum.splits option.splits list.splits if_splits prod.splits)

text \<open>
  The loop of \<open>GetMessage\<close>, \<open>for message_file_key in generator\<close>, entered with the
  generator started. Each turn asks the generator for its next key, which reads the
  cursor of the reader as the body of the turn before left it; the body, \<open>_GetMessage\<close>,
  runs its own statements on that same cursor. When the generator ends the loop leaves
  \<open>message_string\<close> as the last turn set it.
\<close>

function GetMessage_loop ::
  "WinevtResourcesSqlite3DatabaseReader \<Rightarrow> int \<Rightarrow> int \<Rightarrow> py_value \<Rightarrow>
     (error + py_value) \<times> WinevtResourcesSqlite3DatabaseReader" where
  "GetMessage_loop r lcid message_identifier message_string =
     (case u_GetMessageFileKeys_next r of
        (Inl e, r1) \<Rightarrow> (Inl e, r1)
      | (Inr None, r1) \<Rightarrow> (Inr message_string, r1)
      | (Inr (Some message_file_key), r1) \<Rightarrow>
          (case u_GetMessage r1 message_file_key lcid message_identifier of
             (Inl e, r2) \<Rightarrow> (Inl e, r2)
           | (Inr found, r2) \<Rightarrow>
               (if truthy found then (Inr found, r2)
                else GetMessage_loop r2 lcid message_identifier found)))"
  by pat_completeness auto
termination
proof (relation "measure (\<lambda>(r, lcid, mid, ms). rows_left r)")
  show "wf (measure (\<lambda>(r, lcid, mid, ms). rows_left r))"
    by simp
next
  fix r :: WinevtResourcesSqlite3DatabaseReader
  fix lcid message_identifier :: int
  fix message_string found :: py_value
  fix x r1 r2 xa xb message_file_key y
  assume "(x, r1) = u_GetMessageFileKeys_next r" "x = Inr xa" "xa = Some message_file_key"
    and "(y, r2) = u_GetMessage r1 message_file_key lcid message_identifier" "y = Inr found"
  then have "0 < rows_left r" and "rows_left r2 = 0"
    using u_GetMessageFileKeys_next_rows_left [of r message_file_key r1]
      u_GetMessage_rows_left [of r1 message_file_key lcid message_identifier found r2]
    by simp_all
  then show "((r2, lcid, message_identifier, found), r, lcid, message_identifier, message_string)
      \<in> measure (\<lambda>(r, lcid, mid, ms). rows_left r)"
    by simp
qed

declare GetMessage_loop.simps [simp del]

text \<open>
  \<open>GetMessage\<close>. A generator object is never false, so \<open>if not generator: return None\<close>
  is not taken.
\<close>

definition GetMessage ::
  "WinevtResourcesSqlite3DatabaseReader \<Rightarrow> string \<Rightarrow> int \<Rightarrow> int \<Rightarrow>
     (error + py_value) \<times> WinevtResourcesSqlite3DatabaseReader" where
  "GetMessage r log_source lcid message_identifier =
     (case u_GetEventLogProviderKey r log_source of
        (Inl e, r1) \<Rightarrow> (Inl e, r1)
      | (Inr event_log_provider_key, r1) \<Rightarrow>
          (if \<not> truthy event_log_provider_key then (Inr PyNone, r1)
           else
             (case u_GetMessageFileKeys_start r1 event_log_provider_key of
                (Inl e, r2) \<Rightarrow> (Inl e, r2)
              | (Inr _, r2) \<Rightarrow>
                  (case GetMessage_loop r2 lcid message_identifier PyNone of
                     (Inl e, r3) \<Rightarrow> (Inl e, r3)
                   | (Inr message_string, r3) \<Rightarrow>
                       (if u_string_format r3 = ''wrc''
                        then (u_ReformatMessageString message_string, r3)
                        else (Inr message_string, r3))))))"

definition GetMetadataAttribute ::
  "WinevtResourcesSqlite3DatabaseReader \<Rightarrow> string \<Rightarrow>
     (error + py_value) \<times> WinevtResourcesSqlite3DatabaseReader" where
  "GetMetadataAttribute r attribute_name =
     (case HasTable (u_database_file r) ''metadata'' of
        (Inl e, f1) \<Rightarrow> (Inl e, r\<lparr>u_database_file := f1\<rparr>)
      | (Inr has_table, f1) \<Rightarrow>
          (if \<not> has_table then (Inr PyNone, r\<lparr>u_database_file := f1\<rparr>)
           else
             (case GetValues_list f1 [''metadata''] [''value'']
                     (Some (''name'', PyStr attribute_name)) of
                (Inl e, f2) \<Rightarrow> (Inl e, r\<lparr>u_database_file := f2\<rparr>)
              | (Inr values, f2) \<Rightarrow>
                  (case values of
                     [] \<Rightarrow> Inr PyNone
                   | [v] \<Rightarrow> dict_get v ''value''
                   | _ \<Rightarrow> Inl More_than_one_value,
                   r\<lparr>u_database_file := f2\<rparr>))))"

text \<open>
  \<open>raise RuntimeError(prefix.format(value))\<close>: formatting the message comes first and can
  itself raise.
\<close>

definition raise_RuntimeError_format_s :: "string \<Rightarrow> py_value \<Rightarrow> error" where
  "raise_RuntimeError_format_s prefix v =
     (case py_format_s v of Inl e \<Rightarrow> e | Inr s \<Rightarrow> RuntimeError (prefix @ s))"

definition WinevtResourcesSqlite3DatabaseReader_Open ::
  "environment \<Rightarrow> WinevtResourcesSqlite3DatabaseReader \<Rightarrow> string \<Rightarrow>
     (error + bool) \<times> WinevtResourcesSqlite3DatabaseReader" where
  "WinevtResourcesSqlite3DatabaseReader_Open env r file_name =
     (case Sqlite3DatabaseFile_Open env (u_database_file r) file_name True of
        (Inl e, f1) \<Rightarrow> (Inl e, r\<lparr>u_database_file := f1\<rparr>)
      | (Inr opened, f1) \<Rightarrow>
          (if \<not> opened then (Inr False, r\<lparr>u_database_file := f1\<rparr>)
           else
             (case GetMetadataAttribute (r\<lparr>u_database_file := f1\<rparr>) ''version'' of
                (Inl e, r2) \<Rightarrow> (Inl e, r2)
              | (Inr version, r2) \<Rightarrow>
                  (if \<not> truthy version \<or> version \<noteq> PyStr ''20150315''
                   then (Inl (raise_RuntimeError_format_s ''Unsupported version: '' version), r2)
                   else
                     (case GetMetadataAttribute r2 ''string_format'' of
                        (Inl e, r3) \<Rightarrow> (Inl e, r3)
                      | (Inr found, r3) \<Rightarrow>
                          (let string_format = (if \<not> truthy found then PyStr ''wrc'' else found) in
                             (case string_format of
                                PyStr s \<Rightarrow>
                                  (if s \<noteq> ''pep3101'' \<and> s \<noteq> ''wrc''
                                   then (Inl (raise_RuntimeError_format_s
                                                ''Unsupported string format: '' string_format), r3)
                                   else (Inr True, r3\<lparr>u_string_format := s\<rparr>))
                              | _ \<Rightarrow>
                                  (Inl (raise_RuntimeError_format_s
                                          ''Unsupported string format: '' string_format), r3))))))))"

subsection \<open>Class \<open>WinevtResourcesHelper\<close>\<close>

definition DEFAULT_LCID :: int where
  "DEFAULT_LCID = 0x0409"

definition WINEVT_RC_DATABASE :: string where
  "WINEVT_RC_DATABASE = ''winevt-rc.db''"

text \<open>
  The attribute \<open>_windows_eventlog_providers\<close> is never read and is left out. The data
  location may be \<open>None\<close>.
\<close>

record WinevtResourcesHelper =
  u_data_location :: "string option"
  u_lcid :: int
  u_winevt_database_reader :: "WinevtResourcesSqlite3DatabaseReader option"

text \<open>\<open>__init__\<close>: \<open>self._lcid = lcid or self.DEFAULT_LCID\<close>.\<close>

definition WinevtResourcesHelper_init :: "string option \<Rightarrow> int option \<Rightarrow> WinevtResourcesHelper" where
  "WinevtResourcesHelper_init data_location lcid =
     \<lparr>u_data_location = data_location,
      u_lcid = (case lcid of None \<Rightarrow> DEFAULT_LCID | Some n \<Rightarrow> if n = 0 then DEFAULT_LCID else n),
      u_winevt_database_reader = None\<rparr>"

text \<open>\<open>os.path.join(a, b)\<close> for a relative \<open>b\<close>, POSIX flavour.\<close>

definition os_path_join :: "string \<Rightarrow> string \<Rightarrow> string" where
  "os_path_join a b = (if a = [] \<or> last a = CHR ''/'' then a @ b else a @ ''/'' @ b)"

text \<open>
  \<open>_GetWinevtRcDatabaseReader\<close>. The new reader is assigned to the attribute before its
  \<open>Open\<close> is called, and \<open>Open\<close> works on that object: when \<open>Open\<close> raises, the attribute
  keeps the reader as \<open>Open\<close> left it. A reader object is never false, so
  \<open>not self._winevt_database_reader\<close> asks whether the attribute is \<open>None\<close>; a data location
  is false when it is \<open>None\<close> or empty. Where the condition of the \<open>if\<close> fails the attribute
  is returned as it is.
\<close>

definition u_GetWinevtRcDatabaseReader ::
  "environment \<Rightarrow> WinevtResourcesHelper \<Rightarrow>
     (error + WinevtResourcesSqlite3DatabaseReader option) \<times> WinevtResourcesHelper" where
  "u_GetWinevtRcDatabaseReader env h =
     (case u_winevt_database_reader h of
        Some database_reader \<Rightarrow> (Inr (Some database_reader), h)
      | None \<Rightarrow>
          (case u_data_location h of
             None \<Rightarrow> (Inr None, h)
           | Some data_location \<Rightarrow>
               (if data_location = [] then (Inr None, h)
                else
                  (let database_path = os_path_join data_location WINEVT_RC_DATABASE in
                     (if \<not> isfile env database_path then (Inr None, h)
                      else
                        (case WinevtResourcesSqlite3DatabaseReader_Open env
                                WinevtResourcesSqlite3DatabaseReader_init database_path of
                           (Inl e, r1) \<Rightarrow> (Inl e, h\<lparr>u_winevt_database_reader := Some r1\<rparr>)
                         | (Inr opened, r1) \<Rightarrow>
                             (if \<not> opened then (Inr None, h\<lparr>u_winevt_database_reader := None\<rparr>)
                              else (Inr (Some r1), h\<lparr>u_winevt_database_reader := Some r1\<rparr>))))))))"

text \<open>
  \<open>GetMessageString\<close>. The reader it works with is the object the attribute refers to, so
  what a lookup does to the reader stays in the helper.
\<close>

definition GetMessageString ::
  "environment \<Rightarrow> WinevtResourcesHelper \<Rightarrow> string \<Rightarrow> int \<Rightarrow>
     (error + py_value) \<times> WinevtResourcesHelper" where
  "GetMessageString env h log_source message_identifier =
     (case u_GetWinevtRcDatabaseReader env h of
        (Inl e, h1) \<Rightarrow> (Inl e, h1)
      | (Inr None, h1) \<Rightarrow> (Inr PyNone, h1)
      | (Inr (Some database_reader), h1) \<Rightarrow>
          (if u_lcid h1 \<noteq> DEFAULT_LCID then
             (case GetMessage database_reader log_source (u_lcid h1) message_identifier of
                (Inl e, r1) \<Rightarrow> (Inl e, h1\<lparr>u_winevt_database_reader := Some r1\<rparr>)
              | (Inr message_string, r1) \<Rightarrow>
                  (if truthy message_string
                   then (Inr message_string, h1\<lparr>u_winevt_database_reader := Some r1\<rparr>)
                   else
                     (case GetMessage r1 log_source DEFAULT_LCID message_identifier of
                        (res, r2) \<Rightarrow> (res, h1\<lparr>u_winevt_database_reader := Some r2\<rparr>))))
           else
             (case GetMessage database_reader log_source DEFAULT_LCID message_identifier of
                (res, r2) \<Rightarrow> (res, h1\<lparr>u_winevt_database_reader := Some r2\<rparr>))))"

section \<open>Properties\<close>

subsection \<open>Notions used to state the properties\<close>

text \<open>
  What follows the number of a place holder: \<open>decoration_length\<close> is the number of
  characters the three optional items \<open>[!]?[s]?[!]?\<close> take from the start of a text and
  \<open>discard_decoration\<close> the text without them. The decorations written out as texts are
  \<open>decorations\<close>, and a text cannot prolong a place holder when it is empty or its first
  character is no digit, no \<open>!\<close> and no \<open>s\<close>.
\<close>

definition decoration_length :: "string \<Rightarrow> nat" where
  "decoration_length r1 =
     (let m1 = optional ''!'' r1;
          r2 = drop (length m1) r1;
          m2 = optional ''s'' r2;
          r3 = drop (length m2) r2;
          m3 = optional ''!'' r3
      in length m1 + length m2 + length m3)"

definition discard_decoration :: "string \<Rightarrow> string" where
  "discard_decoration r1 = drop (decoration_length r1) r1"

definition decorations :: "string list" where
  "decorations = [[], ''!'', ''s'', ''!s'', ''s!'', ''!!'', ''!s!'']"

definition ends_place_holder :: "string \<Rightarrow> bool" where
  "ends_place_holder post = (case post of [] \<Rightarrow> True | a # _ \<Rightarrow> \<not> char_in ''0123456789!s'' a)"

text \<open>
  An accessor is open on a store when it has a connection and its cursor reads that
  store; \<open>drained\<close> is the accessor with no row left in its cursor, the state in which
  every complete retrieval leaves it, and \<open>with_rows\<close> the accessor whose cursor holds the
  given rows; \<open>drained_reader\<close> is the reader with its accessor drained, and
  \<open>opened_file\<close> the accessor as a successful \<open>Open\<close> leaves it.
\<close>

definition opened_on :: "Sqlite3DatabaseFile \<Rightarrow> winevt_rc_db \<Rightarrow> bool" where
  "opened_on f db = (u_connection f \<noteq> None \<and> map_option cursor_db (u_cursor f) = Some db)"

definition drained :: "Sqlite3DatabaseFile \<Rightarrow> Sqlite3DatabaseFile" where
  "drained f = f\<lparr>u_cursor := map_option (\<lambda>c. c\<lparr>cursor_rows := []\<rparr>) (u_cursor f)\<rparr>"


definition drained_reader :: "WinevtResourcesSqlite3DatabaseReader \<Rightarrow> WinevtResourcesSqlite3DatabaseReader" where
  "drained_reader r = r\<lparr>u_database_file := drained (u_database_file r)\<rparr>"

definition opened_file :: "Sqlite3DatabaseFile \<Rightarrow> string \<Rightarrow> bool \<Rightarrow> winevt_rc_db \<Rightarrow> Sqlite3DatabaseFile" where
  "opened_file f file_name ro db =
     f\<lparr>filename := Some file_name, read_only := Some ro, u_connection := Some db,
       u_cursor := Some \<lparr>cursor_db = db, cursor_rows = []\<rparr>\<rparr>"


definition message_file_keys :: "winevt_rc_db \<Rightarrow> int \<Rightarrow> int list" where
  "message_file_keys db event_log_provider_key =
     map fst (filter (\<lambda>(f, k). k = event_log_provider_key)
                (message_file_per_event_log_provider db))"



definition metadata_values :: "winevt_rc_db \<Rightarrow> string \<Rightarrow> string list" where
  "metadata_values db attribute_name =
     (case metadata db of
        None \<Rightarrow> []
      | Some rows \<Rightarrow> map snd (filter (\<lambda>(n, v). n = attribute_name) rows))"

fun zero_one_many :: "py_value list \<Rightarrow> error + py_value" where
  "zero_one_many [] = Inr PyNone"
| "zero_one_many [v] = Inr v"
| "zero_one_many (v # w # vs) = Inl More_than_one_value"


text \<open>
  What \<open>Open\<close> of the reader comes to on a store that \<open>sqlite3.connect\<close> opens, as
  \<open>WinevtResourcesSqlite3DatabaseReader_Open_connected\<close> below proves of the method:
  the error raised or the string format retained.
\<close>

definition Open_on_store :: "winevt_rc_db \<Rightarrow> error + string" where
  "Open_on_store db =
     (case zero_one_many (map PyStr (metadata_values db ''version'')) of
        Inl e \<Rightarrow> Inl e
      | Inr version \<Rightarrow>
          (if version \<noteq> PyStr ''20150315''
           then Inl (raise_RuntimeError_format_s ''Unsupported version: '' version)
           else
             (case zero_one_many (map PyStr (metadata_values db ''string_format'')) of
                Inl e \<Rightarrow> Inl e
              | Inr found \<Rightarrow>
                  (if \<not> truthy found then Inr ''wrc''
                   else if found = PyStr ''pep3101'' then Inr ''pep3101''
                   else if found = PyStr ''wrc'' then Inr ''wrc''
                   else Inl (raise_RuntimeError_format_s ''Unsupported string format: '' found)))))"

text \<open>
  A series of calls of \<open>GetMessageString\<close> on one helper, each with its log source and
  message identifier, the caller going on after a call that raised: the outcomes in
  order and the helper at the end.
\<close>

fun GetMessageString_calls ::
  "environment \<Rightarrow> WinevtResourcesHelper \<Rightarrow> (string \<times> int) list \<Rightarrow>
     (error + py_value) list \<times> WinevtResourcesHelper" where
  "GetMessageString_calls env h [] = ([], h)"
| "GetMessageString_calls env h ((log_source, message_identifier) # calls) =
     (case GetMessageString env h log_source message_identifier of
        (res, h1) \<Rightarrow>
          (case GetMessageString_calls env h1 calls of
             (results, h2) \<Rightarrow> (res # results, h2)))"

subsection \<open>Examples\<close>

text \<open>
  The path of the store under the data location \<open>/data\<close>, an environment in which
  that path is the given store, and a reader as \<open>Open\<close> leaves it on a store (see
  \<open>Open_reader_on\<close>).
\<close>

definition store_path :: string where
  "store_path = ''/data/winevt-rc.db''"

definition environment_with :: "winevt_rc_db \<Rightarrow> environment" where
  "environment_with db =
     \<lparr>isfile = (\<lambda>p. p = store_path),
      sqlite3_connect = (\<lambda>p. if p = store_path then Some db else None)\<rparr>"

definition reader_on :: "winevt_rc_db \<Rightarrow> WinevtResourcesSqlite3DatabaseReader" where
  "reader_on db =
     \<lparr>u_database_file =
        \<lparr>u_connection = Some db, u_cursor = Some \<lparr>cursor_db = db, cursor_rows = []\<rparr>,
         filename = Some store_path, read_only = Some True\<rparr>,
      u_string_format = ''wrc''\<rparr>"

text \<open>
  The store of the specification's example: provider \<open>Application Error\<close> with key 7,
  message file 3, and the message table of file 3 for the language 0x0409 with one
  message for the identifier 1.
\<close>

definition example_store :: winevt_rc_db where
  "example_store =
     \<lparr>metadata = Some [(''version'', ''20150315'')],
      event_log_providers = [(7, ''Application Error'')],
      message_file_per_event_log_provider = [(3, 7)],
      message_tables =
        [''message_table_3_0x00000409'' \<mapsto> [(''0x00000001'', ''Process %1 failed with %2!s!'')]]\<rparr>"



definition old_version_store :: winevt_rc_db where
  "old_version_store =
     \<lparr>metadata = Some [(''version'', ''20140101'')],
      event_log_providers = [(7, ''Application Error'')],
      message_file_per_event_log_provider = [(3, 7)],
      message_tables =
        [''message_table_3_0x00000409'' \<mapsto> [(''0x00000001'', ''Process %1 failed with %2!s!'')]]\<rparr>"

definition unknown_format_store :: winevt_rc_db where
  "unknown_format_store =
     \<lparr>metadata = Some [(''version'', ''20150315''), (''string_format'', ''printf'')],
      event_log_providers = [],
      message_file_per_event_log_provider = [],
      message_tables = Map.empty\<rparr>"

definition empty_format_store :: winevt_rc_db where
  "empty_format_store =
     \<lparr>metadata = Some [(''version'', ''20150315''), (''string_format'', '''')],
      event_log_providers = [],
      message_file_per_event_log_provider = [],
      message_tables = Map.empty\<rparr>"

definition two_file_store :: winevt_rc_db where
  "two_file_store =
     \<lparr>metadata = Some [(''version'', ''20150315'')],
      event_log_providers = [(7, ''Application Error'')],
      message_file_per_event_log_provider = [(3, 7), (4, 7)],
      message_tables =
        [''message_table_4_0x00000409'' \<mapsto> [(''0x00000001'', ''Process %1 failed with %2!s!'')]]\<rparr>"

text \<open>
  Example helpers for the data location \<open>/data\<close>: one with the default language
  identifier and one configured for German (Germany), 0x0407.
\<close>

definition example_helper :: WinevtResourcesHelper where
  "example_helper = WinevtResourcesHelper_init (Some ''/data'') None"


subsection \<open>The place holder pattern\<close>

lemma digit_char_cases:
  assumes "n < 10"
  shows "char_in ''0123456789'' (digit_char n) \<and> digit_value (digit_char n) = Some n
     \<and> (0 < n \<longrightarrow> char_in ''123456789'' (digit_char n))"
proof -
  from assms have "n \<in> {0, 1, 2, 3, 4, 5, 6, 7, 8, 9}" by auto
  then show ?thesis
    by (auto simp: digit_char_def digit_value_def char_in_def)
qed

lemma format_d_one_digit:
  assumes "0 \<le> n" "n < 10"
  shows "format_d n = [digit_char (nat n)]"
  using assms by (simp add: format_d_def)

lemma format_d_two_digits:
  assumes "10 \<le> n" "n \<le> 99"
  shows "format_d n = [digit_char (nat n div 10), digit_char (nat n mod 10)]"
proof -
  have "nat n div 10 < 10" using assms by auto
  then show ?thesis using assms by (simp add: format_d_def)
qed

lemma optional_length: "length (optional cls s) \<le> length s"
  by (cases s) (simp_all add: optional_def)

lemma optional_before_percent:
  "\<not> char_in cls CHR ''%'' \<Longrightarrow> optional cls (ys @ CHR ''%'' # rest) = optional cls ys"
  by (cases ys) (simp_all add: optional_def)

lemma drop_optional_append:
  "drop (length (optional cls ys)) (ys @ zs) = drop (length (optional cls ys)) ys @ zs"
  using optional_length [of cls ys] by simp

lemma no_percent:
  "\<not> char_in ''0123456789'' CHR ''%''" "\<not> char_in ''!'' CHR ''%''" "\<not> char_in ''s'' CHR ''%''"
  by (simp_all add: char_in_def)

lemma optional_step:
  assumes "\<not> char_in cls CHR ''%''"
  shows "optional cls (ys @ CHR ''%'' # rest) = optional cls ys"
    and "drop (length (optional cls ys)) (ys @ CHR ''%'' # rest) =
         drop (length (optional cls ys)) ys @ CHR ''%'' # rest"
  using assms optional_length [of cls ys] by (simp_all add: optional_before_percent)

lemma PH_append:
  "xs \<noteq> [] \<Longrightarrow> PLACE_HOLDER_SPECIFIER_RE (xs @ CHR ''%'' # rest) = PLACE_HOLDER_SPECIFIER_RE xs"
proof (cases xs)
  case Nil
  assume "xs \<noteq> []"
  with Nil show ?thesis by simp
next
  case (Cons c cs)
  show ?thesis
  proof (cases cs)
    case Nil
    have "\<not> char_in ''123456789'' CHR ''%''" by (simp add: char_in_def)
    with Nil Cons show ?thesis
      by (simp add: PLACE_HOLDER_SPECIFIER_RE_def)
  next
    case c2: (Cons d1 r0)
    have "PLACE_HOLDER_SPECIFIER_RE (c # d1 # (r0 @ CHR ''%'' # rest)) =
        PLACE_HOLDER_SPECIFIER_RE (c # d1 # r0)"
      unfolding PLACE_HOLDER_SPECIFIER_RE_def Let_def list.case
        optional_step [OF no_percent(1)] optional_step [OF no_percent(2)]
        optional_step [OF no_percent(3)]
      by (rule refl)
    then show ?thesis
      unfolding Cons c2 by simp
  qed
qed

lemma PH_length:
  assumes "PLACE_HOLDER_SPECIFIER_RE xs = Some (n, g)"
  shows "0 < n \<and> n \<le> length xs"
proof -
  from assms obtain c d1 r0 where xs: "xs = c # d1 # r0"
    by (auto simp: PLACE_HOLDER_SPECIFIER_RE_def split: list.splits)
  define m0 where "m0 = optional ''0123456789'' r0"
  define r1 where "r1 = drop (length m0) r0"
  define m1 where "m1 = optional ''!'' r1"
  define r2 where "r2 = drop (length m1) r1"
  define m2 where "m2 = optional ''s'' r2"
  define r3 where "r3 = drop (length m2) r2"
  define m3 where "m3 = optional ''!'' r3"
  from assms xs have n: "n = 2 + length m0 + length m1 + length m2 + length m3"
    by (auto simp: PLACE_HOLDER_SPECIFIER_RE_def Let_def m0_def r1_def m1_def r2_def m2_def
        r3_def m3_def simp del: drop_drop split: if_splits)
  have "length m0 \<le> length r0" "length m1 \<le> length r1" "length m2 \<le> length r2"
    "length m3 \<le> length r3"
    by (simp_all add: m0_def m1_def m2_def m3_def optional_length)
  moreover have "length r1 = length r0 - length m0" "length r2 = length r1 - length m1"
    "length r3 = length r2 - length m2"
    by (simp_all add: r1_def r2_def r3_def)
  ultimately show ?thesis using n xs by simp
qed

lemma replace_place_holders_split:
  "replace_place_holders (pre @ CHR ''%'' # rest) =
     replace_place_holders pre @ replace_place_holders (CHR ''%'' # rest)"
proof (induction pre rule: length_induct)
  case (1 pre)
  show ?case
  proof (cases pre)
    case Nil
    then show ?thesis
      by (simp add: replace_place_holders_def PLACE_HOLDER_SPECIFIER_RE_def)
  next
    case (Cons c cs)
    have same: "PLACE_HOLDER_SPECIFIER_RE ((c # cs) @ CHR ''%'' # rest) = PLACE_HOLDER_SPECIFIER_RE (c # cs)"
      by (rule PH_append) simp
    show ?thesis
    proof (cases "PLACE_HOLDER_SPECIFIER_RE (c # cs)")
      case None
      have "length cs < length pre" using Cons by simp
      with 1 have "replace_place_holders (cs @ CHR ''%'' # rest) =
          replace_place_holders cs @ replace_place_holders (CHR ''%'' # rest)"
        by blast
      with None same Cons show ?thesis
        by (simp add: replace_place_holders_def)
    next
      case (Some m)
      obtain n g where m: "m = (n, g)" by (cases m)
      from Some m PH_length [of "c # cs" n g] have n: "0 < n" "n - 1 \<le> length cs"
        by auto
      have "length (drop (n - 1) cs) < length pre" using Cons by simp
      with 1 have "replace_place_holders (drop (n - 1) cs @ CHR ''%'' # rest) =
          replace_place_holders (drop (n - 1) cs) @ replace_place_holders (CHR ''%'' # rest)"
        by blast
      with Some m same Cons n show ?thesis
        by (simp add: replace_place_holders_def)
    qed
  qed
qed


lemma class_facts:
  "\<not> char_in ''0123456789'' CHR ''!''" "\<not> char_in ''0123456789'' CHR ''s''"
  "char_in ''!'' CHR ''!''" "\<not> char_in ''!'' CHR ''s''"
  "char_in ''s'' CHR ''s''" "\<not> char_in ''s'' CHR ''!''"
  by (simp_all add: char_in_def)

lemma ends_place_holder_optional:
  assumes "ends_place_holder post"
  shows "optional ''0123456789'' post = []" "optional ''!'' post = []" "optional ''s'' post = []"
  using assms by (auto simp: ends_place_holder_def optional_def char_in_def split: list.splits)

lemma PH_match_general:
  assumes "char_in ''123456789'' d1"
  shows "PLACE_HOLDER_SPECIFIER_RE (CHR ''%'' # d1 # r0) =
     Some (2 + length (optional ''0123456789'' r0)
             + decoration_length (drop (length (optional ''0123456789'' r0)) r0),
           d1 # optional ''0123456789'' r0)"
  using assms
  by (simp add: PLACE_HOLDER_SPECIFIER_RE_def decoration_length_def Let_def del: drop_drop)

lemma place_holder_step:
  assumes "char_in ''123456789'' d1"
  shows "replace_place_holders (CHR ''%'' # d1 # r0) =
     u_PlaceHolderSpecifierReplacer (d1 # optional ''0123456789'' r0)
     @ replace_place_holders (discard_decoration (drop (length (optional ''0123456789'' r0)) r0))"
proof -
  have "drop (length (optional ''0123456789'' r0)
              + decoration_length (drop (length (optional ''0123456789'' r0)) r0)) r0 =
      discard_decoration (drop (length (optional ''0123456789'' r0)) r0)"
    by (simp add: discard_decoration_def add.commute)
  then show ?thesis
    by (simp add: replace_place_holders_def PH_match_general [OF assms])
qed

lemma place_holder_head_general:
  assumes n: "1 \<le> n" "n \<le> 99"
    and one: "n < 10 \<Longrightarrow> optional ''0123456789'' rest = []"
  shows "replace_place_holders (CHR ''%'' # format_d n @ rest) =
     ''{'' @ format_d (n - 1) @ '':s}'' @ replace_place_holders (discard_decoration rest)"
proof (cases "n < 10")
  case True
  then have f: "format_d n = [digit_char (nat n)]" using n by (simp add: format_d_one_digit)
  have d: "char_in ''123456789'' (digit_char (nat n))" "digit_value (digit_char (nat n)) = Some (nat n)"
    using digit_char_cases [of "nat n"] True n by auto
  have p: "py_int_base10 [digit_char (nat n)] = Some n"
    using d n by (simp add: py_int_base10_def)
  show ?thesis
    unfolding f using one [OF True]
    by (simp add: place_holder_step [OF d(1)] u_PlaceHolderSpecifierReplacer_def p)
next
  case False
  then have f: "format_d n = [digit_char (nat n div 10), digit_char (nat n mod 10)]"
    using n by (simp add: format_d_two_digits)
  have lt: "nat n div 10 < 10" "0 < nat n div 10" "nat n mod 10 < 10"
    using False n by auto
  have d: "char_in ''123456789'' (digit_char (nat n div 10))"
    "digit_value (digit_char (nat n div 10)) = Some (nat n div 10)"
    "char_in ''0123456789'' (digit_char (nat n mod 10))"
    "digit_value (digit_char (nat n mod 10)) = Some (nat n mod 10)"
    using digit_char_cases [of "nat n div 10"] digit_char_cases [of "nat n mod 10"] lt by auto
  have p: "py_int_base10 [digit_char (nat n div 10), digit_char (nat n mod 10)] = Some n"
    using d n by (simp add: py_int_base10_def)
  have o: "optional ''0123456789'' (digit_char (nat n mod 10) # rest) = [digit_char (nat n mod 10)]"
    using d(3) by (simp add: optional_def)
  show ?thesis
    unfolding f
    by (simp add: place_holder_step [OF d(1)] o u_PlaceHolderSpecifierReplacer_def p)
qed

lemma discard_decoration_decorations:
  assumes "decoration \<in> set decorations" and "ends_place_holder post"
  shows "discard_decoration (decoration @ post) = post"
proof -
  have "decoration \<in> {[], ''!'', ''s'', ''!s'', ''s!'', ''!!'', ''!s!''}"
    using assms(1) by (simp add: decorations_def)
  then show ?thesis
    using ends_place_holder_optional [OF assms(2)]
    by (elim insertE emptyE)
      (simp_all add: discard_decoration_def decoration_length_def optional_def class_facts)
qed

subsection \<open>Retrievals on an open store\<close>

lemma opened_on_drained: "opened_on f db \<Longrightarrow> opened_on (drained f) db"
  by (auto simp: opened_on_def drained_def)

lemma drained_drained: "drained (drained f) = drained f"
  by (cases "u_cursor f") (simp_all add: drained_def)

lemma HasTable_opened:
  assumes "opened_on f db"
  shows "HasTable f t = (Inr (db_table db t \<noteq> None), drained f)"
  using assms
  by (auto simp: opened_on_def HasTable_def drained_def sqlite3_has_table_query_def
      split: option.splits)


lemma GetValues_list_opened:
  assumes "opened_on f db"
  shows "GetValues_list f tn cn cond =
     (case sqlite3_select db tn cn cond of
        Inl e \<Rightarrow> Inl e
      | Inr rows \<Rightarrow> Inr (map (zip cn) rows), drained f)"
  using assms
  by (auto simp: opened_on_def GetValues_list_def GetValues_start_def drained_def
      split: option.splits sum.splits)

lemma filter_map_rows:
  "filter P (map f xs) = map f (filter (\<lambda>x. P (f x)) xs)"
  by (induction xs) simp_all



lemma select_metadata:
  "sqlite3_select db [''metadata''] [''value''] (Some (''name'', PyStr a)) =
   (case metadata db of None \<Rightarrow> Inl OperationalError
    | Some rows \<Rightarrow> Inr (map (\<lambda>v. [PyStr v]) (metadata_values db a)))"
  by (simp add: sqlite3_select_def db_table_def metadata_values_def filter_map_rows
      case_prod_unfold comp_def split: option.splits)



lemma zero_one_many_map:
  "(case map (zip [c]) (map (\<lambda>v. [f v]) vs) of
      [] \<Rightarrow> Inr PyNone
    | [values] \<Rightarrow> dict_get values c
    | _ \<Rightarrow> Inl More_than_one_value) = zero_one_many (map f vs)"
proof (cases vs)
  case Nil
  then show ?thesis by simp
next
  case (Cons v ws)
  then show ?thesis by (cases ws) (simp_all add: dict_get_def)
qed


lemma GetMetadataAttribute_opened:
  assumes "opened_on (u_database_file r) db"
  shows "GetMetadataAttribute r a =
     (zero_one_many (map PyStr (metadata_values db a)), drained_reader r)"
proof (cases "metadata db")
  case None
  then show ?thesis
    by (simp add: GetMetadataAttribute_def HasTable_opened [OF assms] db_table_def
        metadata_values_def drained_reader_def)
next
  case (Some rows)
  then show ?thesis
    using zero_one_many_map [of "''value''" PyStr "metadata_values db a"]
    by (simp add: GetMetadataAttribute_def HasTable_opened [OF assms]
        GetValues_list_opened [OF opened_on_drained [OF assms]] select_metadata
        db_table_def drained_reader_def drained_drained)
qed














subsection \<open>The reformatting\<close>

text \<open>
  Claim C5. The reformatting is the four substitutions in the order white space
  specifiers, text specifiers, curly brackets, place holders. Applied once to
  \<open>%1 has {0} %%\<close> it gives \<open>{0:s} has {{0}} \%\<close>: the brackets of \<open>{0}\<close> are doubled,
  \<open>%%\<close> becomes a backslash and \<open>%\<close>, and the brackets of the slot made from \<open>%1\<close> are not
  doubled. With the last two substitutions exchanged the same input would give
  \<open>{{0:s}} has {{0}} \%\<close>.
\<close>

theorem reformat_stage_order:
  "reformat s =
     replace_place_holders
       (double_curly_brackets (expand_text_specifiers (remove_white_space_specifiers s)))
   \<and> u_ReformatMessageString (PyStr ''%1 has {0} %%'') =
       Inr (PyStr (''{0:s} has {{0}} '' @ [CHR 0x5C] @ ''%''))
   \<and> double_curly_brackets
       (replace_place_holders
          (expand_text_specifiers (remove_white_space_specifiers ''%1 has {0} %%''))) =
       ''{{0:s}} has {{0}} '' @ [CHR 0x5C] @ ''%''"
proof (intro conjI)
  show "reformat s =
     replace_place_holders
       (double_curly_brackets (expand_text_specifiers (remove_white_space_specifiers s)))"
    by (simp add: reformat_def)
  show "u_ReformatMessageString (PyStr ''%1 has {0} %%'') =
       Inr (PyStr (''{0:s} has {{0}} '' @ [CHR 0x5C] @ ''%''))"
    by code_simp
  show "double_curly_brackets
       (replace_place_holders
          (expand_text_specifiers (remove_white_space_specifiers ''%1 has {0} %%''))) =
       ''{{0:s}} has {{0}} '' @ [CHR 0x5C] @ ''%''"
    by code_simp
qed

theorem reformat_stage_order_witness:
  "reformat ''A%0B%bC'' =
     replace_place_holders
       (double_curly_brackets (expand_text_specifiers (remove_white_space_specifiers ''A%0B%bC'')))
   \<and> reformat ''A%0B%bC'' = ''ABC''"
proof -
  have "replace_place_holders
       (double_curly_brackets (expand_text_specifiers (remove_white_space_specifiers ''A%0B%bC''))) =
     ''ABC''"
    by code_simp
  with reformat_stage_order [of "''A%0B%bC''"] show ?thesis
    by simp
qed

text \<open>
  Claim C6. In the place holder substitution every occurrence of \<open>%\<close> and a number \<open>n\<close>
  from 1 to 99 in decimal (of one digit when no digit follows it, or of two digits) is
  replaced, together with the decoration that follows the number, by the slot \<open>{n-1:s}\<close>;
  the text before and the text behind the decoration are substituted on their own. The
  decoration is an optional \<open>!\<close>, an optional \<open>s\<close> and an optional \<open>!\<close>: each of \<open>!\<close>, \<open>s\<close>,
  \<open>!s\<close>, \<open>s!\<close>, \<open>!!\<close> and \<open>!s!\<close> is discarded whole where the text behind it cannot prolong
  it. In particular \<open>%1 failed with %2!s!\<close> is reformatted to
  \<open>{0:s} failed with {1:s}\<close>.
\<close>

theorem place_holder_conversion:
  assumes "1 \<le> n" and "n \<le> 99"
    and "n < 10 \<Longrightarrow> optional ''0123456789'' rest = []"
  shows "replace_place_holders (pre @ ''%'' @ format_d n @ rest) =
       replace_place_holders pre @ ''{'' @ format_d (n - 1) @ '':s}''
         @ replace_place_holders (discard_decoration rest)
     \<and> (decoration \<in> set decorations \<and> ends_place_holder post \<longrightarrow>
          discard_decoration (decoration @ post) = post)
     \<and> u_ReformatMessageString (PyStr ''%1 failed with %2!s!'') =
       Inr (PyStr ''{0:s} failed with {1:s}'')"
proof (intro conjI impI)
  show "replace_place_holders (pre @ ''%'' @ format_d n @ rest) =
       replace_place_holders pre @ ''{'' @ format_d (n - 1) @ '':s}''
         @ replace_place_holders (discard_decoration rest)"
    using replace_place_holders_split [of pre "format_d n @ rest"]
      place_holder_head_general [OF assms] by simp
  show "discard_decoration (decoration @ post) = post"
    if "decoration \<in> set decorations \<and> ends_place_holder post"
    using that by (simp add: discard_decoration_decorations)
  show "u_ReformatMessageString (PyStr ''%1 failed with %2!s!'') =
       Inr (PyStr ''{0:s} failed with {1:s}'')"
    by code_simp
qed

theorem place_holder_conversion_witness:
  "(1::int) \<le> 12 \<and> (12::int) \<le> 99 \<and> (2::int) < 10
   \<and> optional ''0123456789'' ''!s! done'' = []
   \<and> ''!s!'' \<in> set decorations \<and> ends_place_holder '' done''
   \<and> discard_decoration ''!s! done'' = '' done''
   \<and> replace_place_holders ''Process %12!s! done'' = ''Process {11:s} done''
   \<and> replace_place_holders ''Process %2!s! done'' = ''Process {1:s} done''"
proof -
  have h: "''!s!'' \<in> set decorations" "ends_place_holder '' done''"
    by (simp_all add: decorations_def ends_place_holder_def char_in_def)
  have e: "format_d 12 = ''12''" "format_d (12 - 1) = ''11''"
    "format_d 2 = ''2''" "format_d (2 - 1) = ''1''"
    "replace_place_holders ''Process '' = ''Process ''"
    "replace_place_holders '' done'' = '' done''"
    by code_simp+
  have o: "optional ''0123456789'' ''!s! done'' = []"
    by (simp add: optional_def char_in_def)
  have n: "(1::int) \<le> 12" "(12::int) \<le> 99"
    "(12::int) < 10 \<Longrightarrow> optional ''0123456789'' ''!s! done'' = []"
    and k: "(1::int) \<le> 2" "(2::int) \<le> 99"
    "(2::int) < 10 \<Longrightarrow> optional ''0123456789'' ''!s! done'' = []"
    by (simp_all add: o)
  from place_holder_conversion [OF n, of "''Process ''" "''!s!''" "'' done''"]
    place_holder_conversion [OF k, of "''Process ''" "''!s!''" "'' done''"] h e o
  show ?thesis
    by simp
qed

text \<open>
  Claim C8. The reformatting is not idempotent: reformatting its own output changes the
  output again, for an input with a curly bracket (the brackets are doubled a second
  time) and for an input with a text specifier (the escape is escaped a second time).
\<close>

theorem reformat_not_idempotent:
  "(\<exists>s. reformat (reformat s) \<noteq> reformat s)
   \<and> reformat ''{'' = ''{{'' \<and> reformat (reformat ''{'') = ''{{{{''
   \<and> reformat ''%%n'' = [CHR 0x5C] @ ''%n''
   \<and> reformat (reformat ''%%n'') = [CHR 0x5C, CHR 0x5C] @ ''n''"
proof -
  have a: "reformat ''{'' = ''{{''" and b: "reformat ''{{'' = ''{{{{''"
    by code_simp+
  have c: "reformat ''%%n'' = [CHR 0x5C] @ ''%n''"
    and d: "reformat ([CHR 0x5C] @ ''%n'') = [CHR 0x5C, CHR 0x5C] @ ''n''"
    by code_simp+
  have "reformat (reformat ''{'') \<noteq> reformat ''{''"
    by (simp add: a b)
  then have "\<exists>s. reformat (reformat s) \<noteq> reformat s" ..
  with a b c d show ?thesis
    by simp
qed

subsection \<open>The example reader\<close>

lemma opened_on_reader_on: "opened_on (u_database_file (reader_on db)) db"
  by (simp add: reader_on_def opened_on_def)

subsection \<open>Lookups of the reader\<close>





subsection \<open>Opening the reader\<close>

lemma Sqlite3DatabaseFile_Open_connected:
  assumes "u_connection f = None" and "sqlite3_connect env file_name = Some db"
  shows "Sqlite3DatabaseFile_Open env f file_name ro = (Inr True, opened_file f file_name ro db)"
  using assms by (simp add: Sqlite3DatabaseFile_Open_def opened_file_def)

lemma opened_file_opened: "opened_on (opened_file f file_name ro db) db"
  by (simp add: opened_file_def opened_on_def)

lemma drained_opened_file: "drained (opened_file f file_name ro db) = opened_file f file_name ro db"
  by (simp add: opened_file_def drained_def)

lemma WinevtResourcesSqlite3DatabaseReader_Open_connected:
  assumes "u_connection (u_database_file r) = None" and "sqlite3_connect env file_name = Some db"
  shows "WinevtResourcesSqlite3DatabaseReader_Open env r file_name =
     (case Open_on_store db of
        Inl e \<Rightarrow> (Inl e, r\<lparr>u_database_file := opened_file (u_database_file r) file_name True db\<rparr>)
      | Inr s \<Rightarrow>
          (Inr True,
           r\<lparr>u_database_file := opened_file (u_database_file r) file_name True db,
             u_string_format := s\<rparr>))"
proof -
  let ?r1 = "r\<lparr>u_database_file := opened_file (u_database_file r) file_name True db\<rparr>"
  have o: "opened_on (u_database_file ?r1) db"
    by (simp add: opened_file_opened)
  have d: "drained_reader ?r1 = ?r1"
    by (simp add: drained_reader_def drained_opened_file)
  have v: "zero_one_many (map PyStr vs) = Inr x \<Longrightarrow> x = PyNone \<or> (\<exists>s. x = PyStr s)" for vs x
    by (cases "map PyStr vs" rule: zero_one_many.cases) auto
  have t: "\<not> truthy x \<Longrightarrow> x \<noteq> PyStr ''20150315''" for x
    by auto
  show ?thesis
    unfolding WinevtResourcesSqlite3DatabaseReader_Open_def
      Sqlite3DatabaseFile_Open_connected [OF assms]
    using v t
    by (auto simp: GetMetadataAttribute_opened [OF o] d Open_on_store_def Let_def
        split: sum.splits py_value.splits)
qed

lemma WinevtResourcesSqlite3DatabaseReader_Open_already:
  assumes "u_connection (u_database_file r) \<noteq> None"
  shows "WinevtResourcesSqlite3DatabaseReader_Open env r file_name =
     (Inl (RuntimeError ''Cannot open database already opened.''), r)"
  using assms
  by (auto simp: WinevtResourcesSqlite3DatabaseReader_Open_def Sqlite3DatabaseFile_Open_def)

lemma Open_reader_on:
  assumes "Open_on_store db = Inr ''wrc''"
  shows "WinevtResourcesSqlite3DatabaseReader_Open (environment_with db)
           WinevtResourcesSqlite3DatabaseReader_init store_path = (Inr True, reader_on db)"
proof -
  have "u_connection (u_database_file WinevtResourcesSqlite3DatabaseReader_init) = None"
    "sqlite3_connect (environment_with db) store_path = Some db"
    by (simp_all add: WinevtResourcesSqlite3DatabaseReader_init_def Sqlite3DatabaseFile_init_def
        environment_with_def)
  from WinevtResourcesSqlite3DatabaseReader_Open_connected [OF this] assms show ?thesis
    by (simp add: WinevtResourcesSqlite3DatabaseReader_init_def Sqlite3DatabaseFile_init_def
        opened_file_def reader_on_def)
qed

lemma Open_on_store_fails:
  assumes "metadata_values db ''version'' \<noteq> [''20150315'']
      \<or> (\<exists>s. metadata_values db ''string_format'' = [s]
            \<and> s \<noteq> [] \<and> s \<noteq> ''pep3101'' \<and> s \<noteq> ''wrc'')"
  shows "isl (Open_on_store db)"
proof (cases "metadata_values db ''version'' = [''20150315'']")
  case True
  with assms show ?thesis
    by (auto simp: Open_on_store_def)
next
  case False
  then show ?thesis
    by (cases "map PyStr (metadata_values db ''version'')" rule: zero_one_many.cases)
      (auto simp: Open_on_store_def raise_RuntimeError_format_s_def)
qed

lemma Open_on_store_default:
  assumes "metadata_values db ''version'' = [''20150315'']"
    and "metadata_values db ''string_format'' = [] \<or> metadata_values db ''string_format'' = [[]]"
  shows "Open_on_store db = Inr ''wrc''"
  using assms by (auto simp: Open_on_store_def)

text \<open>
  Claim C3, as amended. For a store that \<open>sqlite3.connect\<close> opens: when its \<open>version\<close>
  attribute is absent or is not exactly the one value \<open>20150315\<close>, \<open>Open\<close> of the reader
  raises, and so it does for the version \<open>20140101\<close>; when its \<open>string_format\<close> attribute
  has a non-empty value that is neither \<open>pep3101\<close> nor \<open>wrc\<close>, \<open>Open\<close> raises; when the version
  is the supported one and \<open>string_format\<close> is absent or empty, \<open>Open\<close> of a reader that is
  not open yet returns \<open>True\<close> and the string format is \<open>wrc\<close>. \<open>Open\<close> never answers an
  unsupported store with \<open>False\<close>.
\<close>

theorem Open_compatibility:
  assumes "sqlite3_connect env file_name = Some db"
  shows "(metadata_values db ''version'' \<noteq> [''20150315''] \<longrightarrow>
            isl (fst (WinevtResourcesSqlite3DatabaseReader_Open env r file_name)))
     \<and> ((\<exists>s. metadata_values db ''string_format'' = [s]
            \<and> s \<noteq> [] \<and> s \<noteq> ''pep3101'' \<and> s \<noteq> ''wrc'') \<longrightarrow>
            isl (fst (WinevtResourcesSqlite3DatabaseReader_Open env r file_name)))
     \<and> (u_connection (u_database_file r) = None
          \<and> metadata_values db ''version'' = [''20150315'']
          \<and> (metadata_values db ''string_format'' = []
               \<or> metadata_values db ''string_format'' = [[]]) \<longrightarrow>
            fst (WinevtResourcesSqlite3DatabaseReader_Open env r file_name) = Inr True
            \<and> u_string_format (snd (WinevtResourcesSqlite3DatabaseReader_Open env r file_name)) =
                ''wrc'')"
proof (cases "u_connection (u_database_file r) = None")
  case True
  note c = WinevtResourcesSqlite3DatabaseReader_Open_connected [OF True assms]
  show ?thesis
  proof (intro conjI impI)
    assume "metadata_values db ''version'' \<noteq> [''20150315'']"
    then have "isl (Open_on_store db)" by (simp add: Open_on_store_fails)
    then show "isl (fst (WinevtResourcesSqlite3DatabaseReader_Open env r file_name))"
      by (cases "Open_on_store db") (simp_all add: c)
  next
    assume "\<exists>s. metadata_values db ''string_format'' = [s]
            \<and> s \<noteq> [] \<and> s \<noteq> ''pep3101'' \<and> s \<noteq> ''wrc''"
    then have "isl (Open_on_store db)" by (simp add: Open_on_store_fails)
    then show "isl (fst (WinevtResourcesSqlite3DatabaseReader_Open env r file_name))"
      by (cases "Open_on_store db") (simp_all add: c)
  next
    assume a: "u_connection (u_database_file r) = None
          \<and> metadata_values db ''version'' = [''20150315'']
          \<and> (metadata_values db ''string_format'' = []
               \<or> metadata_values db ''string_format'' = [[]])"
    then have w: "Open_on_store db = Inr ''wrc''" by (simp add: Open_on_store_default)
    show "fst (WinevtResourcesSqlite3DatabaseReader_Open env r file_name) = Inr True"
      by (simp add: c w)
    show "u_string_format (snd (WinevtResourcesSqlite3DatabaseReader_Open env r file_name)) = ''wrc''"
      by (simp add: c w)
  qed
next
  case False
  then show ?thesis
    by (auto simp: WinevtResourcesSqlite3DatabaseReader_Open_already)
qed

theorem Open_compatibility_witness:
  "sqlite3_connect (environment_with old_version_store) store_path = Some old_version_store
   \<and> metadata_values old_version_store ''version'' = [''20140101'']
   \<and> isl (fst (WinevtResourcesSqlite3DatabaseReader_Open (environment_with old_version_store)
               WinevtResourcesSqlite3DatabaseReader_init store_path))
   \<and> metadata_values unknown_format_store ''string_format'' = [''printf'']
   \<and> isl (fst (WinevtResourcesSqlite3DatabaseReader_Open (environment_with unknown_format_store)
               WinevtResourcesSqlite3DatabaseReader_init store_path))
   \<and> metadata_values example_store ''version'' = [''20150315'']
   \<and> metadata_values example_store ''string_format'' = []
   \<and> fst (WinevtResourcesSqlite3DatabaseReader_Open (environment_with example_store)
           WinevtResourcesSqlite3DatabaseReader_init store_path) = Inr True
   \<and> u_string_format (snd (WinevtResourcesSqlite3DatabaseReader_Open
         (environment_with example_store) WinevtResourcesSqlite3DatabaseReader_init store_path)) =
       ''wrc''"
proof -
  have c: "sqlite3_connect (environment_with db) store_path = Some db" for db
    by (simp add: environment_with_def)
  have i: "u_connection (u_database_file WinevtResourcesSqlite3DatabaseReader_init) = None"
    by (simp add: WinevtResourcesSqlite3DatabaseReader_init_def Sqlite3DatabaseFile_init_def)
  have m: "metadata_values old_version_store ''version'' = [''20140101'']"
    "metadata_values unknown_format_store ''string_format'' = [''printf'']"
    "metadata_values example_store ''version'' = [''20150315'']"
    "metadata_values example_store ''string_format'' = []"
    by (simp_all add: metadata_values_def old_version_store_def unknown_format_store_def
        example_store_def)
  from Open_compatibility [OF c, of old_version_store WinevtResourcesSqlite3DatabaseReader_init]
    Open_compatibility [OF c, of unknown_format_store WinevtResourcesSqlite3DatabaseReader_init]
    Open_compatibility [OF c, of example_store WinevtResourcesSqlite3DatabaseReader_init]
    c i m
  show ?thesis by simp
qed

text \<open>
  The claim as it was stated fails on a store whose \<open>string_format\<close> attribute is present
  with the empty string as its value: the value is neither \<open>pep3101\<close> nor \<open>wrc\<close>, and \<open>Open\<close>
  returns \<open>True\<close>, since \<open>if not string_format\<close> takes the empty string for an absent one.
\<close>

theorem Open_compatibility_counterexample:
  "metadata_values empty_format_store ''string_format'' = [[]]
   \<and> fst (GetMetadataAttribute (reader_on empty_format_store) ''string_format'') = Inr (PyStr [])
   \<and> WinevtResourcesSqlite3DatabaseReader_Open (environment_with empty_format_store)
         WinevtResourcesSqlite3DatabaseReader_init store_path =
       (Inr True, reader_on empty_format_store)"
proof -
  have m: "metadata_values empty_format_store ''string_format'' = [[]]"
    "metadata_values empty_format_store ''version'' = [''20150315'']"
    by (simp_all add: metadata_values_def empty_format_store_def)
  then have "Open_on_store empty_format_store = Inr ''wrc''"
    by (simp add: Open_on_store_default)
  then show ?thesis
    using m by (simp add: Open_reader_on GetMetadataAttribute_opened [OF opened_on_reader_on])
qed

subsection \<open>The accessor\<close>

text \<open>
  Claim C9. On an accessor without a connection (never opened, opened without success,
  or closed) \<open>HasTable\<close>, \<open>GetValues\<close> and \<open>Close\<close> raise \<open>RuntimeError\<close> and leave the
  accessor as it is; \<open>GetValues\<close> being a generator, the error comes with the first item
  asked of it, and so also from \<open>list(...)\<close>. An \<open>Open\<close> that fails to connect leaves the
  accessor without a connection. On an accessor with a connection \<open>Open\<close> raises
  \<open>RuntimeError\<close>, and \<open>Close\<close> succeeds and leaves connection, cursor, file name and
  read-only flag all \<open>None\<close>, the state of a new accessor, which \<open>Open\<close> opens again.
\<close>

theorem accessor_life_cycle:
  "(u_connection f = None \<longrightarrow>
      HasTable f table_name =
        (Inl (RuntimeError ''Cannot determine if table exists database not opened.''), f)
      \<and> GetValues_start f table_names column_names condition =
        (Inl (RuntimeError ''Cannot retrieve values database not opened.''), f)
      \<and> GetValues_list f table_names column_names condition =
        (Inl (RuntimeError ''Cannot retrieve values database not opened.''), f)
      \<and> Sqlite3DatabaseFile_Close f =
        (Inl (RuntimeError ''Cannot close database not opened.''), f)
      \<and> (sqlite3_connect env file_name = None \<longrightarrow>
            fst (Sqlite3DatabaseFile_Open env f file_name ro) = Inr False
            \<and> u_connection (snd (Sqlite3DatabaseFile_Open env f file_name ro)) = None))
   \<and> (u_connection f \<noteq> None \<longrightarrow>
      Sqlite3DatabaseFile_Open env f file_name ro =
        (Inl (RuntimeError ''Cannot open database already opened.''), f)
      \<and> Sqlite3DatabaseFile_Close f = (Inr (), Sqlite3DatabaseFile_init))
   \<and> (sqlite3_connect env file_name = Some db \<longrightarrow>
      Sqlite3DatabaseFile_Open env Sqlite3DatabaseFile_init file_name ro =
        (Inr True,
         \<lparr>u_connection = Some db, u_cursor = Some \<lparr>cursor_db = db, cursor_rows = []\<rparr>,
          filename = Some file_name, read_only = Some ro\<rparr>))"
proof (intro conjI impI)
  assume n: "u_connection f = None"
  show "HasTable f table_name =
      (Inl (RuntimeError ''Cannot determine if table exists database not opened.''), f)"
    using n by (simp add: HasTable_def)
  show "GetValues_start f table_names column_names condition =
      (Inl (RuntimeError ''Cannot retrieve values database not opened.''), f)"
    using n by (simp add: GetValues_start_def)
  then show "GetValues_list f table_names column_names condition =
      (Inl (RuntimeError ''Cannot retrieve values database not opened.''), f)"
    by (simp add: GetValues_list_def)
  show "Sqlite3DatabaseFile_Close f =
      (Inl (RuntimeError ''Cannot close database not opened.''), f)"
    using n by (simp add: Sqlite3DatabaseFile_Close_def)
  assume "sqlite3_connect env file_name = None"
  with n show "fst (Sqlite3DatabaseFile_Open env f file_name ro) = Inr False"
    and "u_connection (snd (Sqlite3DatabaseFile_Open env f file_name ro)) = None"
    by (simp_all add: Sqlite3DatabaseFile_Open_def)
next
  assume o: "u_connection f \<noteq> None"
  then show "Sqlite3DatabaseFile_Open env f file_name ro =
      (Inl (RuntimeError ''Cannot open database already opened.''), f)"
    by (auto simp: Sqlite3DatabaseFile_Open_def)
  from o show "Sqlite3DatabaseFile_Close f = (Inr (), Sqlite3DatabaseFile_init)"
    by (auto simp: Sqlite3DatabaseFile_Close_def Sqlite3DatabaseFile_init_def)
next
  assume "sqlite3_connect env file_name = Some db"
  then show "Sqlite3DatabaseFile_Open env Sqlite3DatabaseFile_init file_name ro =
      (Inr True,
       \<lparr>u_connection = Some db, u_cursor = Some \<lparr>cursor_db = db, cursor_rows = []\<rparr>,
        filename = Some file_name, read_only = Some ro\<rparr>)"
    by (simp add: Sqlite3DatabaseFile_Open_def Sqlite3DatabaseFile_init_def)
qed

theorem accessor_life_cycle_witness:
  "u_connection Sqlite3DatabaseFile_init = None
   \<and> HasTable Sqlite3DatabaseFile_init ''metadata'' =
       (Inl (RuntimeError ''Cannot determine if table exists database not opened.''),
        Sqlite3DatabaseFile_init)
   \<and> GetValues_list Sqlite3DatabaseFile_init [''metadata''] [''value''] None =
       (Inl (RuntimeError ''Cannot retrieve values database not opened.''),
        Sqlite3DatabaseFile_init)
   \<and> Sqlite3DatabaseFile_Close Sqlite3DatabaseFile_init =
       (Inl (RuntimeError ''Cannot close database not opened.''), Sqlite3DatabaseFile_init)
   \<and> sqlite3_connect (environment_with example_store) ''/elsewhere'' = None
   \<and> fst (Sqlite3DatabaseFile_Open (environment_with example_store) Sqlite3DatabaseFile_init
           ''/elsewhere'' True) = Inr False
   \<and> sqlite3_connect (environment_with example_store) store_path = Some example_store
   \<and> u_connection (u_database_file (reader_on example_store)) \<noteq> None
   \<and> Sqlite3DatabaseFile_Open (environment_with example_store)
         (u_database_file (reader_on example_store)) store_path True =
       (Inl (RuntimeError ''Cannot open database already opened.''),
        u_database_file (reader_on example_store))
   \<and> Sqlite3DatabaseFile_Close (u_database_file (reader_on example_store)) =
       (Inr (), Sqlite3DatabaseFile_init)
   \<and> Sqlite3DatabaseFile_Open (environment_with example_store) Sqlite3DatabaseFile_init
         store_path True =
       (Inr True, u_database_file (reader_on example_store))"
proof -
  have c: "sqlite3_connect (environment_with example_store) ''/elsewhere'' = None"
    "sqlite3_connect (environment_with example_store) store_path = Some example_store"
    by (simp_all add: environment_with_def store_path_def)
  have i: "u_connection Sqlite3DatabaseFile_init = None"
    by (simp add: Sqlite3DatabaseFile_init_def)
  have o: "u_connection (u_database_file (reader_on example_store)) \<noteq> None"
    by (simp add: reader_on_def)
  from accessor_life_cycle [of Sqlite3DatabaseFile_init "''metadata''" "[''metadata'']"
      "[''value'']" None "environment_with example_store" "''/elsewhere''" True example_store]
    accessor_life_cycle [of "u_database_file (reader_on example_store)" "''metadata''"
      "[''metadata'']" "[''value'']" None "environment_with example_store" store_path True
      example_store]
    c i o
  show ?thesis
    by (simp add: reader_on_def)
qed





subsection \<open>The helper\<close>



lemma GetMessageString_with_reader:
  assumes "u_winevt_database_reader h \<noteq> None"
  shows "GetMessageString env' h log_source mid = GetMessageString env h log_source mid"
    and "u_winevt_database_reader (snd (GetMessageString env h log_source mid)) \<noteq> None"
proof -
  from assms obtain r where r: "u_winevt_database_reader h = Some r"
    by auto
  then have g: "u_GetWinevtRcDatabaseReader any h = (Inr (Some r), h)" for any
    by (simp add: u_GetWinevtRcDatabaseReader_def)
  show "GetMessageString env' h log_source mid = GetMessageString env h log_source mid"
    by (simp add: GetMessageString_def g)
  show "u_winevt_database_reader (snd (GetMessageString env h log_source mid)) \<noteq> None"
    by (simp add: GetMessageString_def g case_prod_beta split: sum.splits)
qed

lemma GetMessageString_calls_with_reader:
  assumes "u_winevt_database_reader h \<noteq> None"
  shows "GetMessageString_calls env' h calls = GetMessageString_calls env h calls"
  using assms
proof (induction calls arbitrary: h)
  case Nil
  show ?case by simp
next
  case (Cons c calls)
  obtain log_source mid where c: "c = (log_source, mid)" by (cases c)
  from Cons.prems have "GetMessageString env' h log_source mid = GetMessageString env h log_source mid"
    and "u_winevt_database_reader (snd (GetMessageString env h log_source mid)) \<noteq> None"
    by (rule GetMessageString_with_reader)+
  with Cons.IH [of "snd (GetMessageString env h log_source mid)"] c show ?case
    by (simp add: case_prod_beta)
qed

text \<open>
  Claim C1, as amended. When the store file exists and \<open>Open\<close> of the new reader raises,
  the first call of \<open>GetMessageString\<close> lets that error out to its caller: the helper has
  no handler for it. After this first call the helper does not open the store again:
  whatever calls follow, their outcomes are the same in every environment, so neither
  \<open>os.path.isfile\<close> nor \<open>sqlite3.connect\<close> has a part in them.
\<close>

theorem Open_error_reaches_caller:
  assumes "u_winevt_database_reader h = None"
    and "u_data_location h = Some data_location" and "data_location \<noteq> []"
    and "isfile env (os_path_join data_location WINEVT_RC_DATABASE)"
    and "fst (WinevtResourcesSqlite3DatabaseReader_Open env
                WinevtResourcesSqlite3DatabaseReader_init
                (os_path_join data_location WINEVT_RC_DATABASE)) = Inl e"
  shows "fst (GetMessageString env h log_source message_identifier) = Inl e
     \<and> GetMessageString_calls env'
         (snd (GetMessageString env h log_source message_identifier)) calls =
       GetMessageString_calls env
         (snd (GetMessageString env h log_source message_identifier)) calls"
proof -
  obtain r1 where o: "WinevtResourcesSqlite3DatabaseReader_Open env
      WinevtResourcesSqlite3DatabaseReader_init
      (os_path_join data_location WINEVT_RC_DATABASE) = (Inl e, r1)"
    using assms(5)
    by (cases "WinevtResourcesSqlite3DatabaseReader_Open env
      WinevtResourcesSqlite3DatabaseReader_init
      (os_path_join data_location WINEVT_RC_DATABASE)") simp
  have g: "GetMessageString env h log_source message_identifier =
      (Inl e, h\<lparr>u_winevt_database_reader := Some r1\<rparr>)"
    using assms(1-4) o
    by (simp add: GetMessageString_def u_GetWinevtRcDatabaseReader_def)
  then have "u_winevt_database_reader (snd (GetMessageString env h log_source message_identifier))
      \<noteq> None"
    by simp
  then have "GetMessageString_calls env'
         (snd (GetMessageString env h log_source message_identifier)) calls =
       GetMessageString_calls env
         (snd (GetMessageString env h log_source message_identifier)) calls"
    by (rule GetMessageString_calls_with_reader)
  with g show ?thesis by simp
qed

lemma Open_on_store_old_version:
  "Open_on_store old_version_store = Inl (RuntimeError ''Unsupported version: 20140101'')"
  by (simp add: Open_on_store_def metadata_values_def old_version_store_def
      raise_RuntimeError_format_s_def)

theorem Open_error_reaches_caller_witness:
  "u_winevt_database_reader example_helper = None
   \<and> u_data_location example_helper = Some ''/data''
   \<and> isfile (environment_with old_version_store) (os_path_join ''/data'' WINEVT_RC_DATABASE)
   \<and> fst (WinevtResourcesSqlite3DatabaseReader_Open (environment_with old_version_store)
           WinevtResourcesSqlite3DatabaseReader_init
           (os_path_join ''/data'' WINEVT_RC_DATABASE)) =
       Inl (RuntimeError ''Unsupported version: 20140101'')
   \<and> fst (GetMessageString (environment_with old_version_store) example_helper
           ''Application Error'' 1) =
       Inl (RuntimeError ''Unsupported version: 20140101'')
   \<and> GetMessageString_calls (environment_with example_store)
         (snd (GetMessageString (environment_with old_version_store) example_helper
                 ''Application Error'' 1))
         [(''Application Error'', 1), (''Service'', 2)] =
       GetMessageString_calls (environment_with old_version_store)
         (snd (GetMessageString (environment_with old_version_store) example_helper
                 ''Application Error'' 1))
         [(''Application Error'', 1), (''Service'', 2)]"
proof -
  have h: "u_winevt_database_reader example_helper = None"
    "u_data_location example_helper = Some ''/data''" "''/data'' \<noteq> []"
    by (simp_all add: example_helper_def WinevtResourcesHelper_init_def)
  have p: "os_path_join ''/data'' WINEVT_RC_DATABASE = store_path"
    by (simp add: os_path_join_def WINEVT_RC_DATABASE_def store_path_def)
  have i: "isfile (environment_with old_version_store) (os_path_join ''/data'' WINEVT_RC_DATABASE)"
    by (simp add: p environment_with_def)
  have "u_connection (u_database_file WinevtResourcesSqlite3DatabaseReader_init) = None"
    "sqlite3_connect (environment_with old_version_store) store_path = Some old_version_store"
    by (simp_all add: WinevtResourcesSqlite3DatabaseReader_init_def Sqlite3DatabaseFile_init_def
        environment_with_def)
  from WinevtResourcesSqlite3DatabaseReader_Open_connected [OF this]
  have o: "fst (WinevtResourcesSqlite3DatabaseReader_Open (environment_with old_version_store)
           WinevtResourcesSqlite3DatabaseReader_init
           (os_path_join ''/data'' WINEVT_RC_DATABASE)) =
       Inl (RuntimeError ''Unsupported version: 20140101'')"
    by (simp add: p Open_on_store_old_version)
  from Open_error_reaches_caller [OF h i o, of "''Application Error''" 1
      "environment_with example_store" "[(''Application Error'', 1), (''Service'', 2)]"]
    h i o
  show ?thesis by simp
qed

text \<open>
  The claim as it was stated fails on a store that reports the version \<open>20140101\<close>: the
  first call of \<open>GetMessageString\<close> raises the \<open>RuntimeError\<close> of \<open>Open\<close> to its caller.
  (The reader is assigned to the helper before its \<open>Open\<close> is called and stays there when
  \<open>Open\<close> raises, connected to the store, so the second call consults the store that
  \<open>Open\<close> rejected.)
\<close>

theorem Open_error_reaches_caller_counterexample:
  "fst (GetMessageString (environment_with old_version_store) example_helper
         ''Application Error'' 1) =
     Inl (RuntimeError ''Unsupported version: 20140101'')
   \<and> fst (GetMessageString (environment_with old_version_store)
           (snd (GetMessageString (environment_with old_version_store) example_helper
                   ''Application Error'' 1))
           ''Application Error'' 1) =
     Inr (PyStr ''Process {0:s} failed with {1:s}'')"
  by code_simp

subsection \<open>The loop over the message files\<close>

text \<open>
  Claim C2. On the store of the claim (provider \<open>Application Error\<close> with key 7, message
  file 3, table \<open>message_table_3_0x00000409\<close> with the message for identifier 1)
  \<open>GetMessageString\<close> returns \<open>Process {0:s} failed with {1:s}\<close>. But the loop of
  \<open>GetMessage\<close> does not get past the first message file key. On a store where the
  provider has the message files 3 and 4 and only file 4 has the message, the generator
  \<open>_GetMessageFileKeys\<close> executes its query on the cursor of the accessor (two rows) and
  yields key 3 (one row left); \<open>_GetMessage\<close> for key 3 executes the table query of
  \<open>HasTable\<close> on the same cursor, which thereby holds the rows of that query, of which
  there is none; the generator asked for its next key finds the cursor without a row and
  ends. Key 4 is not looked up and \<open>GetMessage\<close> returns \<open>None\<close>, although a lookup in file 4
  finds the message.
\<close>

theorem GetMessage_first_message_file_only:
  "fst (GetMessageString (environment_with example_store) example_helper ''Application Error'' 1) =
     Inr (PyStr ''Process {0:s} failed with {1:s}'')
   \<and> message_file_keys two_file_store 7 = [3, 4]
   \<and> fst (u_GetMessage (reader_on two_file_store) (PyInt 3) DEFAULT_LCID 1) = Inr PyNone
   \<and> fst (u_GetMessage (reader_on two_file_store) (PyInt 4) DEFAULT_LCID 1) =
       Inr (PyStr ''Process %1 failed with %2!s!'')
   \<and> rows_left (snd (u_GetMessageFileKeys_start (reader_on two_file_store) (PyInt 7))) = 2
   \<and> fst (u_GetMessageFileKeys_next
           (snd (u_GetMessageFileKeys_start (reader_on two_file_store) (PyInt 7)))) =
       Inr (Some (PyInt 3))
   \<and> rows_left (snd (u_GetMessageFileKeys_next
           (snd (u_GetMessageFileKeys_start (reader_on two_file_store) (PyInt 7))))) = 1
   \<and> rows_left (snd (u_GetMessage
           (snd (u_GetMessageFileKeys_next
              (snd (u_GetMessageFileKeys_start (reader_on two_file_store) (PyInt 7)))))
           (PyInt 3) DEFAULT_LCID 1)) = 0
   \<and> fst (u_GetMessageFileKeys_next
           (snd (u_GetMessage
              (snd (u_GetMessageFileKeys_next
                 (snd (u_GetMessageFileKeys_start (reader_on two_file_store) (PyInt 7)))))
              (PyInt 3) DEFAULT_LCID 1))) = Inr None
   \<and> fst (GetMessage (reader_on two_file_store) ''Application Error'' DEFAULT_LCID 1) = Inr PyNone
   \<and> fst (GetMessageString (environment_with two_file_store) example_helper
           ''Application Error'' 1) = Inr PyNone"
proof (intro conjI)
  show "fst (GetMessageString (environment_with example_store) example_helper
          ''Application Error'' 1) = Inr (PyStr ''Process {0:s} failed with {1:s}'')"
    by code_simp
  show "message_file_keys two_file_store 7 = [3, 4]"
    by (simp add: message_file_keys_def two_file_store_def)
  show "fst (u_GetMessage (reader_on two_file_store) (PyInt 3) DEFAULT_LCID 1) = Inr PyNone"
    by code_simp
  show "fst (u_GetMessage (reader_on two_file_store) (PyInt 4) DEFAULT_LCID 1) =
       Inr (PyStr ''Process %1 failed with %2!s!'')"
    by code_simp
  show "rows_left (snd (u_GetMessageFileKeys_start (reader_on two_file_store) (PyInt 7))) = 2"
    by code_simp
  show "fst (u_GetMessageFileKeys_next
           (snd (u_GetMessageFileKeys_start (reader_on two_file_store) (PyInt 7)))) =
       Inr (Some (PyInt 3))"
    by code_simp
  show "rows_left (snd (u_GetMessageFileKeys_next
           (snd (u_GetMessageFileKeys_start (reader_on two_file_store) (PyInt 7))))) = 1"
    by code_simp
  show "rows_left (snd (u_GetMessage
           (snd (u_GetMessageFileKeys_next
              (snd (u_GetMessageFileKeys_start (reader_on two_file_store) (PyInt 7)))))
           (PyInt 3) DEFAULT_LCID 1)) = 0"
    by code_simp
  show "fst (u_GetMessageFileKeys_next
           (snd (u_GetMessage
              (snd (u_GetMessageFileKeys_next
                 (snd (u_GetMessageFileKeys_start (reader_on two_file_store) (PyInt 7)))))
              (PyInt 3) DEFAULT_LCID 1))) = Inr None"
    by code_simp
  show "fst (GetMessage (reader_on two_file_store) ''Application Error'' DEFAULT_LCID 1) =
      Inr PyNone"
    by code_simp
  show "fst (GetMessageString (environment_with two_file_store) example_helper
           ''Application Error'' 1) = Inr PyNone"
    by code_simp
qed

end
